theory Spec2Isabelle
  imports Complex_Main
begin

section \<open>Python values shared by the two modules\<close>

text \<open>
  Exceptions are values.  A method of an object returns its outcome together with the
  object's state at that moment, so that what a method has already assigned before it
  raises stays visible.
\<close>

datatype py_error = ValueError | IndexError | KeyError | AssertionError | FileNotFoundError

datatype 'a outcome = Returns 'a | Raises py_error

text \<open>
  Python integers are unbounded (\<open>int\<close>).  A Python \<open>str\<close> is modelled as a
  \<open>string\<close>, one \<open>char\<close> per character, so the model ranges over the strings
  whose code points are below 256; \<open>length\<close> is Python's \<open>len\<close> on them.
\<close>

text \<open>
  \<open>py_bound n i\<close> is the position a slice bound or an insertion index \<open>i\<close> denotes in a
  sequence of length \<open>n\<close>: a negative bound counts from the end, and both ends clamp.
\<close>

definition py_bound :: "nat \<Rightarrow> int \<Rightarrow> nat" where
  "py_bound n i = (if i < 0 then nat (max (i + int n) 0) else min (nat i) n)"

text \<open>\<open>xs[lo:hi]\<close>, \<open>xs[:hi]\<close> and \<open>xs[lo:]\<close>.\<close>

definition py_slice :: "'a list \<Rightarrow> int \<Rightarrow> int \<Rightarrow> 'a list" where
  "py_slice xs lo hi =
     (let a = py_bound (length xs) lo; b = py_bound (length xs) hi
      in take (b - a) (drop a xs))"

definition py_slice_to :: "'a list \<Rightarrow> int \<Rightarrow> 'a list" where
  "py_slice_to xs hi = take (py_bound (length xs) hi) xs"

definition py_slice_from :: "'a list \<Rightarrow> int \<Rightarrow> 'a list" where
  "py_slice_from xs lo = drop (py_bound (length xs) lo) xs"

text \<open>\<open>xs[i]\<close>: \<open>None\<close> stands for the IndexError of an index out of range.\<close>

definition py_index :: "'a list \<Rightarrow> int \<Rightarrow> 'a option" where
  "py_index xs i =
     (let n = int (length xs); j = (if i < 0 then i + n else i)
      in if 0 \<le> j \<and> j < n then Some (xs ! nat j) else None)"

text \<open>\<open>xs.insert(i, x)\<close> never raises; \<open>xs.pop(0)\<close> raises IndexError on an empty list.\<close>

definition py_insert :: "'a list \<Rightarrow> int \<Rightarrow> 'a \<Rightarrow> 'a list" where
  "py_insert xs i x =
     (let k = py_bound (length xs) i in take k xs @ x # drop k xs)"

definition py_pop0 :: "'a list \<Rightarrow> 'a list option" where
  "py_pop0 xs = (case xs of [] \<Rightarrow> None | _ # r \<Rightarrow> Some r)"

text \<open>\<open>sub in s\<close> on strings: \<open>sub\<close> occurs in \<open>s\<close> as a contiguous run.\<close>

fun py_contains :: "'a list \<Rightarrow> 'a list \<Rightarrow> bool" where
  "py_contains sub [] = (sub = [])"
| "py_contains sub (c # cs) = (take (length sub) (c # cs) = sub \<or> py_contains sub cs)"

section \<open>The text input widget (pygameMenu/widgets/textinput.py)\<close>

subsection \<open>State\<close>

text \<open>
  Keys are pygame's key constants.  Only their being distinct matters to the widget, so
  they are a datatype; \<open>K_UNKNOWN\<close> is pygame's key 0 and \<open>K_CODE n\<close> any other key.
\<close>

datatype key =
    K_UNKNOWN | K_BACKSPACE | K_TAB | K_RETURN | K_ESCAPE | K_DELETE
  | K_UP | K_DOWN | K_RIGHT | K_LEFT | K_HOME | K_END
  | K_LCTRL | K_RCTRL | K_LSHIFT | K_RSHIFT | K_NUMLOCK | K_CAPSLOCK
  | K_c | K_v | K_x | K_y | K_z | K_CODE nat

text \<open>
  The input types of \<open>pygameMenu.locals\<close>; \<open>PYGAME_INPUT_OTHER\<close> is any other value
  a caller passes as \<open>input_type\<close>.
\<close>

datatype input_type =
    PYGAME_INPUT_TEXT | PYGAME_INPUT_FLOAT | PYGAME_INPUT_INT | PYGAME_INPUT_OTHER string

text \<open>
  What the widget asks of its collaborators, in the order it asks: a method of the
  widget's \<open>sound\<close> object, the \<open>change\<close> and \<open>apply\<close> callbacks of the base
  widget, the clipboard's \<open>copy\<close>, and pygame's event queue.
\<close>

datatype effect =
    Play_event_error | Play_key_del | Play_key_add | Play_open_menu
  | Change | Apply | Clipboard_copy string | Event_pump | Event_post key string

type_synonym renderbox = "int \<times> int \<times> int"

record textinput =
  input_string :: string
  ignore_keys :: "key list"
  block_copy_paste :: bool
  key_is_pressed :: bool
  keyrepeat_counters :: "(key \<times> int \<times> string) list"
  keyrepeat_initial_interval_ms :: int
  keyrepeat_interval_ms :: int
  last_key :: key
  keyrepeat_mouse_ms :: int
  keyrepeat_mouse_interval_ms :: int
  mouse_is_pressed :: bool
  ellipsis :: string
  renderbox :: renderbox
  cursor_position :: int
  cursor_render :: bool
  cursor_ms_counter :: int
  cursor_visible :: bool
  history :: "string list"
  history_cursor :: "int list"
  history_renderbox :: "renderbox list"
  history_index :: int
  max_history :: int
  input_type :: input_type
  label_size :: int
  maxchar :: int
  maxwidth :: int
  effects :: "effect list"

definition emit :: "effect \<Rightarrow> textinput \<Rightarrow> textinput" where
  "emit e s = s\<lparr>effects := effects s @ [e]\<rparr>"

subsection \<open>The render box\<close>

text \<open>\<open>_get_input_string\<close>: the text to draw, with the ellipsis where the box cuts it.\<close>

definition get_input_string :: "textinput \<Rightarrow> string" where
  "get_input_string s =
     (if maxwidth s \<noteq> 0 \<and> int (length (input_string s)) > maxwidth s then
        (case renderbox s of (r0, r1, r2) \<Rightarrow>
           let text = py_slice (input_string s) r0 r1;
               text = (if r1 \<noteq> int (length (input_string s)) then text @ ellipsis s else text);
               text = (if r0 \<noteq> 0 then ellipsis s @ text else text)
           in text)
      else input_string s)"

text \<open>
  \<open>_update_renderbox\<close>, in three parts.  \<open>renderbox_fits\<close> is the branch for a string no
  longer than \<open>maxwidth\<close>, \<open>renderbox_overflow\<close> the branch for a longer one; both give
  \<open>None\<close> where the method returns early and leaves the box as it is.  \<open>apply_limits\<close>
  are the last three assignments of the method.
\<close>

definition apply_limits :: "int \<Rightarrow> int \<Rightarrow> renderbox \<Rightarrow> renderbox" where
  "apply_limits mw ls b =
     (case b of (r0, r1, r2) \<Rightarrow> (max 0 r0, max 0 r1, max 0 (min r2 (min mw ls))))"

definition renderbox_fits :: "int \<Rightarrow> int \<Rightarrow> bool \<Rightarrow> int \<Rightarrow> renderbox \<Rightarrow> renderbox option" where
  "renderbox_fits left right addition ls b =
     (case b of (r0, r1, r2) \<Rightarrow>
        if right < 0 \<and> r2 = ls then None
        else
          let r0 = 0;
              r1 = (if addition \<and> left < 0 then r1 + left else r1);
              r1 = (if addition then r1 + right else r1);
              r2 = (if addition \<and> right < 0 then r2 - right else r2);
              r2 = r2 + left;
              r2 = r2 + right
          in Some (r0, r1, r2))"

definition renderbox_overflow ::
  "int \<Rightarrow> int \<Rightarrow> bool \<Rightarrow> int \<Rightarrow> int \<Rightarrow> renderbox \<Rightarrow> renderbox option" where
  "renderbox_overflow left right addition mw ls b =
     (case b of (r0, r1, r2) \<Rightarrow>
        if addition \<and> right < 0 \<and> r2 = mw then None
        else if addition \<and> left < 0 \<and> r2 = 0 then None
        else
          let (r0, r1, r2) =
                (if addition then
                   let r2 = (if right < 0 \<and> r0 \<noteq> 0 \<and> r1 - 1 = ls then r2 - right else r2);
                       (r0, r1) = (if right > 0 \<and> r2 = mw then (r0 + right, r1 + right)
                                   else (r0, r1));
                       r2 = (if right > 0 then r2 + right else r2);
                       r2 = (if left < 0 \<and> r0 = 0 then r2 + left else r2);
                       (r0, r1) = (if left < 0 then (r0 + left, r1 + left) else (r0, r1))
                   in (r0, r1, r2)
                 else
                   let r2 = r2 + right;
                       r2 = r2 + left;
                       (r0, r1) = (if r2 < 0 then (r0 + left, r1 + left) else (r0, r1));
                       (r0, r1) = (if r2 > mw then (r0 + right, r1 + right) else (r0, r1))
                   in (r0, r1, r2));
              r1 = max mw (min r1 ls);
              r0 = r1 - mw
          in Some (r0, r1, r2))"

definition update_renderbox ::
  "int \<Rightarrow> int \<Rightarrow> bool \<Rightarrow> bool \<Rightarrow> bool \<Rightarrow> textinput \<Rightarrow> textinput" where
  "update_renderbox left right addition to_end to_start s0 =
     (let s = s0\<lparr>cursor_render := True\<rparr>;
          mw = maxwidth s;
          ls = int (length (input_string s))
      in if mw = 0 then s
         else if to_end then s\<lparr>renderbox := (max 0 (ls - mw), ls, min ls mw)\<rparr>
         else if to_start then s\<lparr>renderbox := (0, min ls mw, 0)\<rparr>
         else if left < 0 \<and> ls = 0 then s
         else
           (case (if ls \<le> mw then renderbox_fits left right addition ls (renderbox s)
                  else renderbox_overflow left right addition mw ls (renderbox s)) of
              None \<Rightarrow> s
            | Some b \<Rightarrow> s\<lparr>renderbox := apply_limits mw ls b\<rparr>))"

text \<open>\<open>_move_cursor_left\<close> and \<open>_move_cursor_right\<close>.\<close>

definition move_cursor_left :: "textinput \<Rightarrow> textinput" where
  "move_cursor_left s =
     update_renderbox (- 1) 0 False False False
       (s\<lparr>cursor_position := max (cursor_position s - 1) 0\<rparr>)"

definition move_cursor_right :: "textinput \<Rightarrow> textinput" where
  "move_cursor_right s =
     update_renderbox 0 1 False False False
       (s\<lparr>cursor_position := min (cursor_position s + 1) (int (length (input_string s)))\<rparr>)"

subsection \<open>Python's \<open>int\<close>, \<open>float\<close>, \<open>strip\<close> and \<open>repr\<close> on strings\<close>

text \<open>
  The widget validates its text with the builtins \<open>int\<close> and \<open>float\<close>.  What they
  accept is Python's documented grammar (version 3.6 and later, no limit on the number of
  digits): surrounding whitespace, a sign, and digits that single underscores may
  separate; \<open>float\<close> also takes a fraction, an exponent, and the words inf, infinity
  and nan in any case.  \<open>py_int\<close> gives the number read; \<open>py_float\<close> gives the
  literal it accepted, the floating-point number itself is not computed.
\<close>

definition is_space :: "char \<Rightarrow> bool" where
  "is_space c = ((of_char c :: nat) \<in> {9, 10, 11, 12, 13, 28, 29, 30, 31, 32, 133, 160})"

definition py_strip :: "string \<Rightarrow> string" where
  "py_strip s = rev (dropWhile is_space (rev (dropWhile is_space s)))"

definition is_digit :: "char \<Rightarrow> bool" where
  "is_digit c = (48 \<le> (of_char c :: nat) \<and> (of_char c :: nat) \<le> 57)"

fun digitpart :: "string \<Rightarrow> bool" where
  "digitpart [] = False"
| "digitpart [c] = is_digit c"
| "digitpart (c # d # cs) =
     (is_digit c \<and> (if d = CHR ''_'' then digitpart cs else digitpart (d # cs)))"

definition digits_value :: "string \<Rightarrow> int" where
  "digits_value ds = foldl (\<lambda>n c. 10 * n + (int (of_char c) - 48)) 0 (filter is_digit ds)"

definition unsigned :: "string \<Rightarrow> bool \<times> string" where
  "unsigned t =
     (case t of
        c # r \<Rightarrow> if c = CHR ''-'' then (True, r) else if c = CHR ''+'' then (False, r)
                 else (False, t)
      | [] \<Rightarrow> (False, t))"

definition py_int :: "string \<Rightarrow> int option" where
  "py_int s =
     (case unsigned (py_strip s) of (neg, body) \<Rightarrow>
        if digitpart body
        then Some (if neg then - digits_value body else digits_value body)
        else None)"

definition lower :: "char \<Rightarrow> char" where
  "lower c =
     (if 65 \<le> (of_char c :: nat) \<and> (of_char c :: nat) \<le> 90
      then char_of ((of_char c :: nat) + 32) else c)"

definition is_exp :: "char \<Rightarrow> bool" where
  "is_exp c = (c = CHR ''e'' \<or> c = CHR ''E'')"

definition float_number :: "string \<Rightarrow> bool" where
  "float_number m =
     (let a = takeWhile (\<lambda>c. c \<noteq> CHR ''.'') m;
          b = dropWhile (\<lambda>c. c \<noteq> CHR ''.'') m
      in if b = [] then digitpart a
         else (a = [] \<or> digitpart a) \<and> digitpart (tl b) \<or> digitpart a \<and> tl b = [])"

definition float_exponent :: "string \<Rightarrow> bool" where
  "float_exponent x = (x = [] \<or> digitpart (snd (unsigned (tl x))))"

definition py_float :: "string \<Rightarrow> string option" where
  "py_float s =
     (let t = py_strip s; body = snd (unsigned t)
      in if map lower body \<in> {''inf'', ''infinity'', ''nan''}
            \<or> float_number (takeWhile (\<lambda>c. \<not> is_exp c) body)
              \<and> float_exponent (dropWhile (\<lambda>c. \<not> is_exp c) body)
         then Some t else None)"

text \<open>
  \<open>repr\<close> of a string: quotes around it (double quotes when it holds a single quote
  and no double quote), a backslash before the quote and the backslash, the escapes
  \<open>\t\<close>, \<open>\n\<close>, \<open>\r\<close>, and \<open>\xNN\<close> for every other character that is not printable.
\<close>

definition backslash :: char where
  "backslash = CHR 0x5C"

definition printable :: "char \<Rightarrow> bool" where
  "printable c =
     (let n = (of_char c :: nat) in 32 \<le> n \<and> n < 127 \<or> 160 < n \<and> n \<noteq> 173)"

definition hex_digit :: "nat \<Rightarrow> char" where
  "hex_digit n = (''0123456789abcdef'' ! (n mod 16))"

definition repr_char :: "char \<Rightarrow> char \<Rightarrow> string" where
  "repr_char q c =
     (if c = q \<or> c = backslash then [backslash, c]
      else if c = CHR 0x09 then [backslash, CHR ''t'']
      else if c = CHR 0x0A then [backslash, CHR ''n'']
      else if c = CHR 0x0D then [backslash, CHR ''r'']
      else if printable c then [c]
      else [backslash, CHR ''x'', hex_digit ((of_char c :: nat) div 16),
            hex_digit (of_char c :: nat)])"

definition py_repr :: "string \<Rightarrow> string" where
  "py_repr u =
     (let q = (if CHR 0x27 \<in> set u \<and> CHR 0x22 \<notin> set u then CHR 0x22 else CHR 0x27)
      in q # concat (map (repr_char q) u) @ [q])"

subsection \<open>Validation and value\<close>

text \<open>\<open>_check_input_size\<close>: whether the input must be limited.\<close>

definition check_input_size :: "textinput \<Rightarrow> bool" where
  "check_input_size s =
     (if maxchar s = 0 then False else maxchar s < int (length (input_string s)))"

text \<open>
  \<open>_check_input_type\<close>.  \<open>conv\<close> is the conversion the method picks: \<open>int\<close> for a float
  input and \<open>float\<close> for an integer input, as the source has it.
\<close>

datatype conv = Conv_int | Conv_float

definition conv_accepts :: "conv \<Rightarrow> string \<Rightarrow> bool" where
  "conv_accepts c string =
     (case c of Conv_int \<Rightarrow> py_int string \<noteq> None | Conv_float \<Rightarrow> py_float string \<noteq> None)"

definition check_input_type :: "textinput \<Rightarrow> string \<Rightarrow> bool" where
  "check_input_type s string =
     (if string = [] then True
      else if input_type s = PYGAME_INPUT_TEXT then True
      else
        let conv = (if input_type s = PYGAME_INPUT_FLOAT then Some Conv_int
                    else if input_type s = PYGAME_INPUT_INT then Some Conv_float
                    else None)
        in if string = ''-'' then True
           else (case conv of None \<Rightarrow> False | Some c \<Rightarrow> conv_accepts c string))"

text \<open>\<open>get_value\<close>: a string, a float (kept as the literal read) or an integer.\<close>

datatype py_value = Py_str string | Py_float string | Py_int int

definition get_value :: "textinput \<Rightarrow> py_value" where
  "get_value s =
     (if input_type s = PYGAME_INPUT_TEXT then Py_str (input_string s)
      else if input_type s = PYGAME_INPUT_FLOAT then
        (case py_float (input_string s) of Some f \<Rightarrow> Py_float f | None \<Rightarrow> Py_int 0)
      else if input_type s = PYGAME_INPUT_INT then
        (case py_int (input_string s) of Some n \<Rightarrow> Py_int n | None \<Rightarrow> Py_int 0)
      else Py_str [])"

text \<open>\<open>clear\<close> and \<open>set_value\<close>.\<close>

definition clear :: "textinput \<Rightarrow> textinput" where
  "clear s = s\<lparr>input_string := [], cursor_position := 0\<rparr>"

definition set_value :: "string \<Rightarrow> textinput \<Rightarrow> textinput" where
  "set_value text s = s\<lparr>input_string := text\<rparr>"

subsection \<open>The history of editions\<close>

text \<open>
  \<open>store_edition\<close> is the part of \<open>_update_input_string\<close> under the comment
  ``Add new status to history'': the three inserts at \<open>_history_index\<close>, the three
  \<open>pop(0)\<close> when the history is longer than \<open>_max_history\<close> (each list has just
  received an element, so no \<open>pop\<close> can raise), and the new index.
\<close>

definition store_edition :: "string \<Rightarrow> textinput \<Rightarrow> textinput" where
  "store_edition new_string s0 =
     (let i = history_index s0;
          s = s0\<lparr>history := py_insert (history s0) i new_string,
                 history_cursor := py_insert (history_cursor s0) i (cursor_position s0),
                 history_renderbox := py_insert (history_renderbox s0) i (renderbox s0)\<rparr>;
          s = (if int (length (history s)) > max_history s
               then s\<lparr>history := tl (history s),
                      history_cursor := tl (history_cursor s),
                      history_renderbox := tl (history_renderbox s)\<rparr>
               else s)
      in s\<lparr>history_index := int (length (history s))\<rparr>)"

text \<open>
  \<open>_update_input_string\<close>.  The method calls itself once when the index is not at the
  end of the history, after moving the index there.
\<close>

function update_input_string :: "string \<Rightarrow> textinput \<Rightarrow> unit outcome \<times> textinput" where
  "update_input_string new_string s =
     (let l_history = int (length (history s))
      in if ((l_history > 0 \<and> py_index (history s) (l_history - 1) \<noteq> Some new_string)
              \<or> l_history = 0) \<and> max_history s > 0
         then
           (if history_index s \<noteq> l_history then
              (case py_index (history s) (history_index s) of
                 None \<Rightarrow> (Raises IndexError, s)
               | Some last_string \<Rightarrow>
                   (case update_input_string last_string
                           (s\<lparr>history_index := int (length (history s))\<rparr>) of
                      (Raises e, s') \<Rightarrow> (Raises e, s')
                    | (Returns _, s') \<Rightarrow>
                        (Returns (), (store_edition new_string s')\<lparr>input_string := new_string\<rparr>)))
            else (Returns (), (store_edition new_string s)\<lparr>input_string := new_string\<rparr>))
         else (Returns (), s\<lparr>input_string := new_string\<rparr>))"
  by pat_completeness auto
termination
  by (relation "measure (\<lambda>(n, s). if history_index s = int (length (history s)) then 0 else 1)")
    auto

declare update_input_string.simps [simp del]

text \<open>\<open>_update_from_history\<close>, \<open>_undo\<close> and \<open>_redo\<close>.\<close>

definition update_from_history :: "textinput \<Rightarrow> unit outcome \<times> textinput" where
  "update_from_history s0 =
     (case py_index (history s0) (history_index s0) of
        None \<Rightarrow> (Raises IndexError, s0)
      | Some str \<Rightarrow>
          let s = s0\<lparr>input_string := str\<rparr>
          in (case py_index (history_renderbox s) (history_index s) of
                None \<Rightarrow> (Raises IndexError, s)
              | Some b \<Rightarrow>
                  let s = s\<lparr>renderbox := b\<rparr>
                  in (case py_index (history_cursor s) (history_index s) of
                        None \<Rightarrow> (Raises IndexError, s)
                      | Some c \<Rightarrow>
                          (Returns (), s\<lparr>cursor_position := c, cursor_render := True\<rparr>))))"

definition undo :: "textinput \<Rightarrow> bool outcome \<times> textinput" where
  "undo s0 =
     (if history_index s0 = 0 then (Returns False, s0)
      else
        let s = (if history_index s0 = int (length (history s0))
                 then s0\<lparr>history_index := history_index s0 - 1\<rparr> else s0);
            s = s\<lparr>history_index := max 0 (history_index s - 1)\<rparr>
        in (case update_from_history s of
              (Raises e, s') \<Rightarrow> (Raises e, s')
            | (Returns _, s') \<Rightarrow> (Returns True, s')))"

definition redo :: "textinput \<Rightarrow> bool outcome \<times> textinput" where
  "redo s0 =
     (if history_index s0 = int (length (history s0)) - 1 then (Returns False, s0)
      else
        let s = s0\<lparr>history_index := min (int (length (history s0)) - 1) (history_index s0 + 1)\<rparr>
        in (case update_from_history s of
              (Raises e, s') \<Rightarrow> (Raises e, s')
            | (Returns _, s') \<Rightarrow> (Returns True, s')))"

subsection \<open>The clipboard\<close>

text \<open>\<open>_copy\<close> and \<open>_cut\<close> (which returns nothing).\<close>

definition copy :: "textinput \<Rightarrow> bool \<times> textinput" where
  "copy s =
     (if block_copy_paste s then (False, s)
      else (True, (emit (Clipboard_copy (input_string s)) s)\<lparr>block_copy_paste := True\<rparr>))"

definition cut :: "textinput \<Rightarrow> unit outcome \<times> textinput" where
  "cut s0 =
     (let s = snd (copy s0);
          s = s\<lparr>cursor_position := 0, renderbox := (0, 0, 0)\<rparr>
      in (case update_input_string [] s of
            (Raises e, s') \<Rightarrow> (Raises e, s')
          | (Returns _, s') \<Rightarrow> (Returns (), s'\<lparr>cursor_render := True\<rparr>)))"

text \<open>
  \<open>text.translate(escapes)\<close> with the 31-character string \<open>escapes\<close> as its table: the
  table is indexed by the character's code, so the codes 0 to 30 map to the table's entry,
  the character one above, and every other character, for which the index is out of
  range, stays.
\<close>

definition translate_escapes :: "string \<Rightarrow> string" where
  "translate_escapes text =
     map (\<lambda>c. if (of_char c :: nat) < 31 then char_of ((of_char c :: nat) + 1) else c) text"

text \<open>\<open>_paste\<close>; \<open>clip\<close> is what the clipboard's \<open>paste()\<close> returns.\<close>

definition paste :: "string \<Rightarrow> textinput \<Rightarrow> bool outcome \<times> textinput" where
  "paste clip s0 =
     (if block_copy_paste s0 then (Returns False, s0)
      else
        let text = py_strip clip;
            text = filter (\<lambda>c. c \<noteq> CHR 0x0A) text;
            text = filter (\<lambda>c. c \<noteq> CHR 0x0D) text;
            text = translate_escapes text
        in if text = [] then (Returns False, s0)
           else
             let text_end = int (length text);
                 char_limit = maxchar s0 - int (length (input_string s0)) + 1;
                 text_end = (if maxchar s0 \<noteq> 0 then min char_limit text_end else text_end)
             in if maxchar s0 \<noteq> 0 \<and> text_end \<le> 0 then (Returns False, emit Play_event_error s0)
                else
                  let new_string =
                        py_slice (input_string s0) 0 (cursor_position s0)
                        @ py_slice text 0 text_end
                        @ py_slice (input_string s0) (cursor_position s0)
                            (int (length (input_string s0)))
                  in if check_input_type s0 new_string then
                       let s = emit Play_key_add s0;
                           s = s\<lparr>input_string := new_string\<rparr>;
                           s = (move_cursor_right ^^ (length text + 1)) s
                       in (case update_input_string new_string s of
                             (Raises e, s') \<Rightarrow> (Raises e, s')
                           | (Returns _, s') \<Rightarrow>
                               (Returns True, (emit Change s')\<lparr>block_copy_paste := True\<rparr>))
                     else (Returns False, emit Play_event_error s0))"

subsection \<open>What the widget reads from its host\<close>

text \<open>
  \<open>config_controls\<close> are the three key bindings the widget takes from
  \<open>pygameMenu.config_controls\<close>.  \<open>host\<close> is what one call of \<open>update\<close> reads from
  pygame and from the base widget: the width the font gives a character
  (\<open>_font.size(c)[0]\<close>), the widget's rectangle \<open>(x, y, width, height)\<close>,
  \<open>mouse_enabled\<close>, the clock's \<open>get_time()\<close>, the mouse buttons (left, middle, right)
  and position, and the clipboard's text.
\<close>

record config_controls =
  MENU_CTRL_UP :: key
  MENU_CTRL_DOWN :: key
  MENU_CTRL_ENTER :: key

record host =
  controls :: config_controls
  font_width :: "char \<Rightarrow> int"
  rect :: "int \<times> int \<times> int \<times> int"
  mouse_enabled :: bool
  clock_time :: int
  mouse_pressed :: "bool \<times> bool \<times> bool"
  mouse_pos :: "int \<times> int"
  clipboard :: string

text \<open>
  An event of the list \<open>update\<close> receives.  A key press carries its key and its
  \<open>unicode\<close>, and the two answers the host gives while the widget handles it: that of
  \<open>check_key_pressed_valid(event)\<close>, and whether \<open>pygame.key.get_mods()\<close> has a control
  key held.
\<close>

datatype event =
    KEYDOWN key string bool bool
  | KEYUP key
  | MOUSEBUTTONUP "int \<times> int"
  | OTHER_EVENT

subsection \<open>The mouse\<close>

text \<open>
  The second loop of \<open>_update_cursor_mouse\<close>: the index of the first character whose
  middle is at or right of the mouse, the length of the string when there is none.
\<close>

fun scan_chars :: "int \<Rightarrow> int \<Rightarrow> rat \<Rightarrow> nat \<Rightarrow> int list \<Rightarrow> nat" where
  "scan_chars lsize mousex size_sum' i [] = i"
| "scan_chars lsize mousex size_sum' i (cs # rest) =
     (let size_sum' = size_sum' + of_int cs / 2
      in if of_int lsize + size_sum' \<ge> of_int mousex then i
         else scan_chars lsize mousex (size_sum' + of_int cs / 2) (Suc i) rest)"

definition update_cursor_mouse :: "host \<Rightarrow> int \<Rightarrow> textinput \<Rightarrow> textinput" where
  "update_cursor_mouse h mousex s =
     (let string = get_input_string s
      in if string = [] then s
         else
           let string_size = map (font_width h) string;
               cursor_pos = int (scan_chars (label_size s) mousex 0 0 string_size)
           in if maxwidth s \<noteq> 0 \<and> int (length (input_string s)) > maxwidth s then
                let cursor_pos = (if fst (renderbox s) \<noteq> 0 then cursor_pos - 3 else cursor_pos)
                in if cursor_pos < 0 \<or> cursor_pos > maxwidth s then
                     let s = (if cursor_pos < 0
                              then move_cursor_left
                                     (s\<lparr>renderbox := (case renderbox s of (r0, r1, r2) \<Rightarrow> (r0, r1, 0))\<rparr>)
                              else s);
                         s = (if cursor_pos > maxwidth s
                              then move_cursor_right
                                     (s\<lparr>renderbox :=
                                          (case renderbox s of (r0, r1, r2) \<Rightarrow> (r0, r1, maxwidth s))\<rparr>)
                              else s)
                     in s
                   else
                     let cursor_pos = max 0 (min (maxwidth s) cursor_pos)
                     in s\<lparr>cursor_position := fst (renderbox s) + cursor_pos,
                          renderbox := (case renderbox s of (r0, r1, r2) \<Rightarrow> (r0, r1, cursor_pos)),
                          cursor_render := True\<rparr>
              else s\<lparr>cursor_position := cursor_pos, cursor_render := True\<rparr>)"

text \<open>
  \<open>Rect.collidepoint\<close>, as pygame documents it: the left and top edges are inside, the
  right and bottom edges are not.
\<close>

definition collidepoint :: "int \<times> int \<times> int \<times> int \<Rightarrow> int \<times> int \<Rightarrow> bool" where
  "collidepoint r p =
     (case r of (x, y, w, hgt) \<Rightarrow> case p of (px, py) \<Rightarrow>
        x \<le> px \<and> px < x + w \<and> y \<le> py \<and> py < y + hgt)"

text \<open>\<open>_check_mouse_collide_input\<close>; no caller reads what it returns.\<close>

definition check_mouse_collide_input :: "host \<Rightarrow> int \<times> int \<Rightarrow> textinput \<Rightarrow> textinput" where
  "check_mouse_collide_input h pos s =
     (if collidepoint (rect h) pos
      then update_cursor_mouse h (fst pos - fst (rect h)) s
      else s)"

subsection \<open>\<open>update\<close>\<close>

text \<open>
  How the body of the loop over the events ends for one event: it goes on to the next
  event with the \<open>updated\<close> flag (also after \<open>continue\<close>), it leaves the loop with
  \<open>break\<close>, it leaves \<open>update\<close> with \<open>return\<close> (the value \<open>None\<close> of Python is
  \<open>None\<close>), or an exception passes through.
\<close>

datatype flow = Continue bool | Break bool | Return "bool option" | Raise py_error

definition return_bool :: "bool outcome \<times> textinput \<Rightarrow> flow \<times> textinput" where
  "return_bool r =
     (case r of (Returns b, s) \<Rightarrow> (Return (Some b), s) | (Raises e, s) \<Rightarrow> (Raise e, s))"

text \<open>A key pressed while a control key is held.\<close>

definition ctrl_command :: "host \<Rightarrow> key \<Rightarrow> textinput \<Rightarrow> flow \<times> textinput" where
  "ctrl_command h k s =
     (if k = K_c then (case copy s of (b, s') \<Rightarrow> (Return (Some b), s'))
      else if k = K_v then return_bool (paste (clipboard h) s)
      else if k = K_z then return_bool (undo (emit Play_key_del s))
      else if k = K_y then return_bool (redo (emit Play_key_add s))
      else if k = K_x then
        (case cut (emit Play_key_del s) of
           (Returns _, s') \<Rightarrow> (Return None, s')
         | (Raises e, s') \<Rightarrow> (Raise e, s'))
      else (Return (Some False), s))"

text \<open>The last branch of the chain: a key that is not ignored adds its \<open>unicode\<close>.\<close>

definition add_unicode :: "string \<Rightarrow> bool \<Rightarrow> textinput \<Rightarrow> flow \<times> textinput" where
  "add_unicode unicode updated s =
     (if check_input_size s then (Break updated, emit Play_event_error s)
      else
        let new_string =
              py_slice_to (input_string s) (cursor_position s) @ unicode
              @ py_slice_from (input_string s) (cursor_position s);
            event_escaped = py_repr unicode
        in if py_contains [backslash, CHR ''x''] event_escaped
              \<or> py_contains [backslash, CHR ''r''] event_escaped
           then (Return (Some False), emit Event_pump s)
           else if check_input_type s new_string then
             (if length unicode > 0 then
                let s = emit Play_key_add s;
                    s = s\<lparr>cursor_position := cursor_position s + 1\<rparr>;
                    s = s\<lparr>input_string := new_string\<rparr>;
                    s = update_renderbox 0 1 True False False s
                in (case update_input_string new_string s of
                      (Raises e, s') \<Rightarrow> (Raise e, s')
                    | (Returns _, s') \<Rightarrow> (Continue True, emit Change s'))
              else (Continue updated, s))
           else (Continue updated, emit Play_event_error s))"

text \<open>The chain of branches on the key, reached when no control key is held.\<close>

definition key_pressed ::
  "host \<Rightarrow> key \<Rightarrow> string \<Rightarrow> bool \<Rightarrow> textinput \<Rightarrow> flow \<times> textinput" where
  "key_pressed h k unicode updated s =
     (if k = K_BACKSPACE then
        let s = emit (if cursor_position s = 0 then Play_event_error else Play_key_del) s;
            new_string =
              py_slice_to (input_string s) (max (cursor_position s - 1) 0)
              @ py_slice_from (input_string s) (cursor_position s)
        in (case update_input_string new_string s of
              (Raises e, s') \<Rightarrow> (Raise e, s')
            | (Returns _, s') \<Rightarrow>
                let s' = update_renderbox (- 1) 0 True False False s';
                    s' = emit Change s';
                    s' = s'\<lparr>cursor_position := max (cursor_position s' - 1) 0\<rparr>
                in (Continue True, s'))
      else if k = K_DELETE then
        let s = emit (if cursor_position s = int (length (input_string s))
                      then Play_event_error else Play_key_del) s;
            new_string =
              py_slice_to (input_string s) (cursor_position s)
              @ py_slice_from (input_string s) (cursor_position s + 1)
        in (case update_input_string new_string s of
              (Raises e, s') \<Rightarrow> (Raise e, s')
            | (Returns _, s') \<Rightarrow>
                (Continue True, emit Change (update_renderbox 0 (- 1) True False False s')))
      else if k = K_RIGHT then
        let s = emit (if cursor_position s = int (length (input_string s))
                      then Play_event_error else Play_key_add) s
        in (Continue True, move_cursor_right s)
      else if k = K_LEFT then
        let s = emit (if cursor_position s = 0 then Play_event_error else Play_key_add) s
        in (Continue True, move_cursor_left s)
      else if k = K_END then
        let s = emit Play_key_add s;
            s = s\<lparr>cursor_position := int (length (input_string s))\<rparr>
        in (Continue True, update_renderbox 0 0 False True False s)
      else if k = K_HOME then
        let s = emit Play_key_add s;
            s = s\<lparr>cursor_position := 0\<rparr>
        in (Continue True, update_renderbox 0 0 False False True s)
      else if k = MENU_CTRL_ENTER (controls h) then
        (Continue True, emit Apply (emit Play_open_menu s))
      else if k \<notin> set (ignore_keys s) then add_unicode unicode updated s
      else (Continue updated, s))"

text \<open>
  What every valid key press does first: the cursor is shown, the key is remembered, and a
  repeat counter is created for a key that has none and is not ignored.
\<close>

definition note_key_down :: "key \<Rightarrow> string \<Rightarrow> textinput \<Rightarrow> textinput" where
  "note_key_down k unicode s0 =
     (let s = s0\<lparr>cursor_visible := True, key_is_pressed := True, last_key := k\<rparr>
      in if k \<notin> fst ` set (keyrepeat_counters s) \<and> k \<notin> set (ignore_keys s)
         then s\<lparr>keyrepeat_counters := keyrepeat_counters s @ [(k, 0, unicode)]\<rparr>
         else s)"

text \<open>The body of the loop for one event.\<close>

definition handle_event :: "host \<Rightarrow> event \<Rightarrow> bool \<Rightarrow> textinput \<Rightarrow> flow \<times> textinput" where
  "handle_event h ev updated s =
     (case ev of
        KEYDOWN k unicode valid ctrl \<Rightarrow>
          if \<not> valid then (Continue updated, s)
          else if ctrl then ctrl_command h k (note_key_down k unicode s)
          else key_pressed h k unicode updated (note_key_down k unicode s)
      | KEYUP k \<Rightarrow>
          (Continue updated,
           s\<lparr>keyrepeat_counters := filter (\<lambda>e. fst e \<noteq> k) (keyrepeat_counters s),
             block_copy_paste := False, key_is_pressed := False\<rparr>)
      | MOUSEBUTTONUP pos \<Rightarrow>
          (Continue updated, if mouse_enabled h then check_mouse_collide_input h pos s else s)
      | OTHER_EVENT \<Rightarrow> (Continue updated, s))"

fun update_events :: "host \<Rightarrow> event list \<Rightarrow> bool \<Rightarrow> textinput \<Rightarrow> flow \<times> textinput" where
  "update_events h [] updated s = (Continue updated, s)"
| "update_events h (ev # evs) updated s =
     (case handle_event h ev updated s of
        (Continue u, s') \<Rightarrow> update_events h evs u s'
      | r \<Rightarrow> r)"

text \<open>
  What \<open>update\<close> does after the loop: the mouse held down, the keys held down (each
  counter is advanced, and a key whose counter reaches the initial interval is posted
  again), and the blinking of the cursor.  \<open>_cursor_switch_ms\<close> is assigned 500 once.
\<close>

definition cursor_switch_ms :: int where
  "cursor_switch_ms = 500"

fun tick_counters ::
  "int \<Rightarrow> int \<Rightarrow> int \<Rightarrow> (key \<times> int \<times> string) list \<Rightarrow> (key \<times> int \<times> string) list \<times> effect list" where
  "tick_counters time_clock initial interval [] = ([], [])"
| "tick_counters time_clock initial interval ((k, c, u) # rest) =
     (case tick_counters time_clock initial interval rest of (rest', posted) \<Rightarrow>
        if c + time_clock \<ge> initial
        then ((k, initial - interval, u) # rest', Event_post k u # posted)
        else ((k, c + time_clock, u) # rest', posted))"

definition after_events :: "host \<Rightarrow> textinput \<Rightarrow> textinput" where
  "after_events h s0 =
     (let time_clock = clock_time h;
          s = s0\<lparr>keyrepeat_mouse_ms := keyrepeat_mouse_ms s0 + time_clock\<rparr>;
          (mouse_left, mouse_middle, mouse_right) = mouse_pressed h;
          s = s\<lparr>mouse_is_pressed := (mouse_left \<or> mouse_right \<or> mouse_middle)\<rparr>;
          s = (if keyrepeat_mouse_ms s > keyrepeat_mouse_interval_ms s then
                 let s = s\<lparr>keyrepeat_mouse_ms := 0\<rparr>
                 in if mouse_left then check_mouse_collide_input h (mouse_pos h) s else s
               else s);
          (counters, posted) =
            tick_counters time_clock (keyrepeat_initial_interval_ms s) (keyrepeat_interval_ms s)
              (keyrepeat_counters s);
          s = s\<lparr>keyrepeat_counters := counters, effects := effects s @ posted\<rparr>;
          s = s\<lparr>cursor_ms_counter := cursor_ms_counter s + time_clock\<rparr>
      in if cursor_ms_counter s \<ge> cursor_switch_ms
         then s\<lparr>cursor_ms_counter := cursor_ms_counter s mod cursor_switch_ms,
                cursor_visible := (\<not> cursor_visible s)\<rparr>
         else s)"

definition update :: "host \<Rightarrow> event list \<Rightarrow> textinput \<Rightarrow> bool option outcome \<times> textinput" where
  "update h events s =
     (case update_events h events False s of
        (Continue updated, s') \<Rightarrow> (Returns (Some updated), after_events h s')
      | (Break updated, s') \<Rightarrow> (Returns (Some updated), after_events h s')
      | (Return v, s') \<Rightarrow> (Returns v, s')
      | (Raise e, s') \<Rightarrow> (Raises e, s'))"

subsection \<open>The constructor\<close>

text \<open>
  The arguments of \<open>__init__\<close> that the widget keeps; \<open>default_args\<close> are the defaults
  of the signature.
\<close>

record textinput_args =
  default_arg :: string
  input_type_arg :: input_type
  history_arg :: int
  maxchar_arg :: int
  maxwidth_arg :: int
  repeat_keys_initial_ms :: int
  repeat_keys_interval_ms :: int
  repeat_mouse_interval_ms :: int
  text_ellipsis :: string

definition default_args :: textinput_args where
  "default_args =
     \<lparr>default_arg = [], input_type_arg = PYGAME_INPUT_TEXT, history_arg = 50,
      maxchar_arg = 0, maxwidth_arg = 0, repeat_keys_initial_ms = 400,
      repeat_keys_interval_ms = 25, repeat_mouse_interval_ms = 50, text_ellipsis = ''...''\<rparr>"

definition blank :: "config_controls \<Rightarrow> textinput_args \<Rightarrow> textinput" where
  "blank c a =
     \<lparr>input_string = [],
      ignore_keys = [MENU_CTRL_UP c, MENU_CTRL_DOWN c, K_LCTRL, K_RCTRL, K_LSHIFT, K_RSHIFT,
                     K_NUMLOCK, K_CAPSLOCK, K_TAB, K_RETURN, K_ESCAPE],
      block_copy_paste = False,
      key_is_pressed = False,
      keyrepeat_counters = [],
      keyrepeat_initial_interval_ms = repeat_keys_initial_ms a,
      keyrepeat_interval_ms = repeat_keys_interval_ms a,
      last_key = K_UNKNOWN,
      keyrepeat_mouse_ms = 0,
      keyrepeat_mouse_interval_ms = repeat_mouse_interval_ms a,
      mouse_is_pressed = False,
      ellipsis = text_ellipsis a,
      renderbox = (0, 0, 0),
      cursor_position = 0,
      cursor_render = True,
      cursor_ms_counter = 0,
      cursor_visible = False,
      history = [],
      history_cursor = [],
      history_renderbox = [],
      history_index = 0,
      max_history = history_arg a,
      input_type = input_type_arg a,
      label_size = 0,
      maxchar = maxchar_arg a,
      maxwidth = maxwidth_arg a,
      effects = []\<rparr>"

text \<open>\<open>__init__\<close>: \<open>Inl\<close> is the exception that leaves no widget.\<close>

definition init :: "config_controls \<Rightarrow> textinput_args \<Rightarrow> py_error + textinput" where
  "init c a =
     (if maxchar_arg a < 0 then Inl ValueError
      else if maxwidth_arg a < 0 then Inl ValueError
      else if history_arg a < 0 then Inl ValueError
      else if check_input_type (blank c a) (default_arg a) then
        let s = (blank c a)\<lparr>input_string := default_arg a\<rparr>;
            s = (move_cursor_right ^^ (length (default_arg a) + 1)) s
        in (case update_input_string (default_arg a) s of
              (Raises e, s') \<Rightarrow> Inl e
            | (Returns _, s') \<Rightarrow> Inr s')
      else Inl ValueError)"

section \<open>The sound manager (pygameMenu/sound.py)\<close>

text \<open>The eight sound types, and \<open>_type_sounds\<close>, which the constructor assigns once.\<close>

definition SOUND_TYPE_CLICK_MOUSE :: string where
  "SOUND_TYPE_CLICK_MOUSE = ''__pygameMenu_sound_click_mouse__''"

definition SOUND_TYPE_CLOSE_MENU :: string where
  "SOUND_TYPE_CLOSE_MENU = ''__pygameMenu_sound_close_menu__''"

definition SOUND_TYPE_ERROR :: string where
  "SOUND_TYPE_ERROR = ''__pygameMenu_sound_error__''"

definition SOUND_TYPE_EVENT :: string where
  "SOUND_TYPE_EVENT = ''__pygameMenu_sound_event__''"

definition SOUND_TYPE_EVENT_ERROR :: string where
  "SOUND_TYPE_EVENT_ERROR = ''__pygameMenu_sound_event_error__''"

definition SOUND_TYPE_KEY_ADDITION :: string where
  "SOUND_TYPE_KEY_ADDITION = ''__pygameMenu_sound_key_addition__''"

definition SOUND_TYPE_KEY_DELETION :: string where
  "SOUND_TYPE_KEY_DELETION = ''__pygameMenu_sound_key_deletion__''"

definition SOUND_TYPE_OPEN_MENU :: string where
  "SOUND_TYPE_OPEN_MENU = ''__pygameMenu_sound_open_menu__''"

definition type_sounds :: "string list" where
  "type_sounds =
     [SOUND_TYPE_CLICK_MOUSE, SOUND_TYPE_CLOSE_MENU, SOUND_TYPE_ERROR, SOUND_TYPE_EVENT,
      SOUND_TYPE_EVENT_ERROR, SOUND_TYPE_KEY_ADDITION, SOUND_TYPE_KEY_DELETION,
      SOUND_TYPE_OPEN_MENU]"

text \<open>
  A mixer channel is known by a number; \<open>None\<close> is Python's \<open>None\<close>, which
  \<open>find_channel\<close> returns when every channel is busy.  A loaded sound is known by the
  path it was loaded from.  Volumes, lengths and times are Python floats; they are
  rational numbers here, so rounding is not modelled.

  An entry of the dictionary \<open>_sound\<close> is the dictionary stored for one sound type:
  \<open>None\<close> is the empty dictionary \<open>{}\<close> of a disabled sound.
\<close>

type_synonym channel = nat

record sound_entry =
  entry_file :: string
  entry_path :: string
  entry_type :: string
  entry_length :: rat
  entry_volume :: rat
  entry_loops :: int
  entry_maxtime :: rat
  entry_fade_ms :: rat

datatype mixer_effect =
    Mixer_init | Channel_stop channel | Channel_play channel string int rat rat
  | Set_volume string rat | Print_invalid_format

record sound =
  sound_channel :: "channel option"
  uniquechannel :: bool
  sound_dict :: "string \<rightharpoonup> sound_entry option"
  last_play :: "string option"
  last_time :: rat
  mixer_log :: "mixer_effect list"

text \<open>
  \<open>Sound.__init__\<close>.  \<open>initialised\<close> is whether \<open>mixer.get_init()\<close> finds the mixer
  initialised already.  \<open>_last_play\<close> starts as the number 0, which is no sound type:
  \<open>None\<close> here.
\<close>

definition new_sound :: "bool \<Rightarrow> bool \<Rightarrow> sound" where
  "new_sound initialised unique =
     \<lparr>sound_channel = None,
      uniquechannel = unique,
      sound_dict = map_of (map (\<lambda>k. (k, None)) type_sounds),
      last_play = None,
      last_time = 0,
      mixer_log = (if initialised then [] else [Mixer_init])\<rparr>"

definition sound_init :: "bool \<Rightarrow> bool \<Rightarrow> int \<Rightarrow> int \<Rightarrow> int \<Rightarrow> py_error + sound" where
  "sound_init initialised unique frequency channels buffer =
     (if \<not> frequency > 0 then Inl AssertionError
      else if \<not> channels > 0 then Inl AssertionError
      else if \<not> buffer > 0 then Inl AssertionError
      else Inr (new_sound initialised unique))"

text \<open>\<open>get_channel\<close>; \<open>found\<close> is what \<open>mixer.find_channel()\<close> returns to this call.\<close>

definition get_channel :: "channel option \<Rightarrow> sound \<Rightarrow> channel option \<times> sound" where
  "get_channel found s0 =
     (let s = (if uniquechannel s0
               then (if sound_channel s0 = None then s0\<lparr>sound_channel := found\<rparr> else s0)
               else s0\<lparr>sound_channel := found\<rparr>)
      in (sound_channel s, s))"

text \<open>
  \<open>set_sound\<close>.  The host answers \<open>isfile\<close> for \<open>os.path.isfile\<close>, and \<open>load\<close> for
  \<open>mixer.Sound(file=file)\<close>: the length of the sound loaded, or \<open>None\<close> when pygame
  raises its error.
\<close>

record sound_host =
  isfile :: "string \<Rightarrow> bool"
  load :: "string \<Rightarrow> rat option"

definition set_sound ::
  "sound_host \<Rightarrow> string \<Rightarrow> string option \<Rightarrow> rat \<Rightarrow> int \<Rightarrow> rat \<Rightarrow> rat \<Rightarrow> sound
     \<Rightarrow> unit outcome \<times> sound" where
  "set_sound h snd_type file volume loops maxtime fade_ms s =
     (if \<not> loops \<ge> 0 then (Raises AssertionError, s)
      else if \<not> maxtime \<ge> 0 then (Raises AssertionError, s)
      else if \<not> fade_ms \<ge> 0 then (Raises AssertionError, s)
      else if \<not> (1 \<ge> volume \<and> volume \<ge> 0) then (Raises AssertionError, s)
      else if snd_type \<notin> set type_sounds then (Raises ValueError, s)
      else
        (case file of
           None \<Rightarrow> (Returns (), s\<lparr>sound_dict := (sound_dict s)(snd_type \<mapsto> None)\<rparr>)
         | Some f \<Rightarrow>
             if \<not> isfile h f then (Raises FileNotFoundError, s)
             else
               (case load h f of
                  None \<Rightarrow>
                    (Returns (),
                     s\<lparr>mixer_log := mixer_log s @ [Print_invalid_format],
                       sound_dict := (sound_dict s)(snd_type \<mapsto> None)\<rparr>)
                | Some len \<Rightarrow>
                    (Returns (),
                     s\<lparr>mixer_log := mixer_log s @ [Set_volume f volume],
                       sound_dict := (sound_dict s)(snd_type \<mapsto>
                         Some \<lparr>entry_file = f, entry_path = f, entry_type = snd_type,
                               entry_length = len, entry_volume = volume, entry_loops = loops,
                               entry_maxtime = maxtime, entry_fade_ms = fade_ms\<rparr>)\<rparr>))))"

text \<open>
  \<open>_play_sound\<close>, given the entry to play, what \<open>find_channel\<close> returns and the time
  \<open>time.time()\<close> gives.
\<close>

definition play_sound :: "sound_entry option \<Rightarrow> channel option \<Rightarrow> rat \<Rightarrow> sound \<Rightarrow> sound" where
  "play_sound entry found now s0 =
     (case entry of
        None \<Rightarrow> s0\<lparr>sound_channel := None\<rparr>
      | Some e \<Rightarrow>
          (case get_channel found s0 of
             (None, s) \<Rightarrow> s
           | (Some c, s) \<Rightarrow>
               let s = (if Some (entry_type e) \<noteq> last_play s
                           \<or> now - last_time s \<ge> (2 / 10) * entry_length e
                           \<or> uniquechannel s
                        then
                          let s = (if uniquechannel s
                                   then s\<lparr>mixer_log := mixer_log s @ [Channel_stop c]\<rparr> else s)
                          in s\<lparr>mixer_log := mixer_log s @
                                 [Channel_play c (entry_file e) (entry_loops e)
                                    (entry_maxtime e) (entry_fade_ms e)]\<rparr>
                        else s)
               in s\<lparr>last_play := Some (entry_type e), last_time := now\<rparr>))"

text \<open>
  The eight methods \<open>play_click_mouse\<close>, ..., \<open>play_close_menu\<close> are \<open>play\<close> at their
  sound type: they look the type up in \<open>_sound\<close> and play the entry.
\<close>

definition play :: "string \<Rightarrow> channel option \<Rightarrow> rat \<Rightarrow> sound \<Rightarrow> unit outcome \<times> sound" where
  "play snd_type found now s =
     (case sound_dict s snd_type of
        None \<Rightarrow> (Raises KeyError, s)
      | Some entry \<Rightarrow> (Returns (), play_sound entry found now s))"

definition play_error :: "channel option \<Rightarrow> rat \<Rightarrow> sound \<Rightarrow> unit outcome \<times> sound" where
  "play_error = play SOUND_TYPE_ERROR"

definition play_key_add :: "channel option \<Rightarrow> rat \<Rightarrow> sound \<Rightarrow> unit outcome \<times> sound" where
  "play_key_add = play SOUND_TYPE_KEY_ADDITION"

section \<open>Notions used to state the properties\<close>

text \<open>
  The bookkeeping of the history is sound in a state when the three lists have the same
  length, no more than \<open>_max_history\<close> editions are kept, and the index lies between 0
  and the number of editions.
\<close>

definition history_ok :: "textinput \<Rightarrow> bool" where
  "history_ok s =
     (length (history_cursor s) = length (history s)
      \<and> length (history_renderbox s) = length (history s)
      \<and> int (length (history s)) \<le> max_history s
      \<and> 0 \<le> history_index s
      \<and> history_index s \<le> int (length (history s)))"

text \<open>
  The test of \<open>_update_input_string\<close> under the comment ``If last edition is different
  than the new one updates the history''.
\<close>

definition new_edition :: "string \<Rightarrow> textinput \<Rightarrow> bool" where
  "new_edition n s =
     (((int (length (history s)) > 0
        \<and> py_index (history s) (int (length (history s)) - 1) \<noteq> Some n)
       \<or> int (length (history s)) = 0) \<and> max_history s > 0)"

text \<open>A sequence of calls of \<open>_update_input_string\<close>, one per string; it stops at an exception.\<close>

fun update_input_strings :: "string list \<Rightarrow> textinput \<Rightarrow> unit outcome \<times> textinput" where
  "update_input_strings [] s = (Returns (), s)"
| "update_input_strings (n # ns) s =
     (case update_input_string n s of
        (Raises e, s') \<Rightarrow> (Raises e, s')
      | (Returns _, s') \<Rightarrow> update_input_strings ns s')"

text \<open>
  A run of calls on one sound manager: \<open>get_channel\<close>, and \<open>_play_sound\<close> on an
  enabled sound (an entry that is not empty), each with what the mixer's \<open>find_channel\<close>
  returns to it.  \<open>run_calls\<close> gives what the calls of \<open>get_channel\<close> returned, in
  order, and the final state.
\<close>

datatype sound_call =
    Get_channel "channel option"
  | Play_enabled sound_entry "channel option" rat

fun run_calls :: "sound_call list \<Rightarrow> sound \<Rightarrow> channel option list \<times> sound" where
  "run_calls [] s = ([], s)"
| "run_calls (Get_channel found # calls) s =
     (case get_channel found s of (r, s') \<Rightarrow>
        case run_calls calls s' of (rs, s'') \<Rightarrow> (r # rs, s''))"
| "run_calls (Play_enabled e found now # calls) s =
     run_calls calls (play_sound (Some e) found now s)"

text \<open>A host with no sound file at all, for the examples.\<close>

definition no_files :: sound_host where
  "no_files = \<lparr>isfile = (\<lambda>f. False), load = (\<lambda>f. None)\<rparr>"

text \<open>
  The render-window invariant: \<open>0 \<le> _renderbox[0] \<le> _renderbox[1]\<close>, the window no
  wider than \<open>maxwidth\<close> and inside the string, and the inner position between 0 and the
  smaller of \<open>maxwidth\<close> and the length of the string.
\<close>

definition renderbox_ok :: "textinput \<Rightarrow> bool" where
  "renderbox_ok s =
     (case renderbox s of (r0, r1, r2) \<Rightarrow>
        0 \<le> r0 \<and> r0 \<le> r1 \<and> r1 - r0 \<le> maxwidth s
        \<and> r1 \<le> int (length (input_string s))
        \<and> 0 \<le> r2 \<and> r2 \<le> min (maxwidth s) (int (length (input_string s))))"

text \<open>The cursor invariant: the cursor lies between 0 and the length of the string.\<close>

definition cursor_ok :: "textinput \<Rightarrow> bool" where
  "cursor_ok s = (0 \<le> cursor_position s \<and> cursor_position s \<le> int (length (input_string s)))"

text \<open>
  Hosts and events for the examples: the key bindings, a host with no mouse button held and
  no time elapsed, the press of a character key and of a special key (both valid, with no
  control key held).
\<close>

definition example_controls :: config_controls where
  "example_controls = \<lparr>MENU_CTRL_UP = K_UP, MENU_CTRL_DOWN = K_DOWN, MENU_CTRL_ENTER = K_RETURN\<rparr>"

definition idle_host :: host where
  "idle_host =
     \<lparr>controls = example_controls, font_width = (\<lambda>c. 8), rect = (0, 0, 0, 0),
      mouse_enabled = True, clock_time = 0, mouse_pressed = (False, False, False),
      mouse_pos = (0, 0), clipboard = []\<rparr>"

definition typed :: "char \<Rightarrow> event" where
  "typed c = KEYDOWN (K_CODE (of_char c)) [c] True False"

definition pressed :: "key \<Rightarrow> event" where
  "pressed k = KEYDOWN k [] True False"

text \<open>
  Successive calls of \<open>update\<close>, one event per call, as a menu makes them frame after
  frame; the state is passed on.
\<close>

fun frames :: "host \<Rightarrow> event list \<Rightarrow> textinput \<Rightarrow> textinput" where
  "frames h [] s = s"
| "frames h (ev # evs) s = frames h evs (snd (update h [ev] s))"

section \<open>Properties of the text input widget\<close>

subsection \<open>The history\<close>

lemma length_py_insert [simp]: "length (py_insert xs i x) = Suc (length xs)"
  by (simp add: py_insert_def Let_def py_bound_def)

lemma py_index_Some:
  "0 \<le> i \<Longrightarrow> i < int (length xs) \<Longrightarrow> py_index xs i = Some (xs ! nat i)"
  by (simp add: py_index_def Let_def)

lemma length_tl_int: "xs \<noteq> [] \<Longrightarrow> int (length (tl xs)) = int (length xs) - 1"
  by (cases xs) auto

lemma store_edition_frame:
  assumes "history_ok s"
  shows "\<exists>hs hc hr. store_edition n s =
            s\<lparr>history := hs, history_cursor := hc, history_renderbox := hr,
              history_index := int (length hs)\<rparr>
          \<and> length hc = length hs \<and> length hr = length hs
          \<and> int (length hs) \<le> max_history s"
proof (cases "int (length (history s)) + 1 > max_history s")
  case True
  let ?hs = "tl (py_insert (history s) (history_index s) n)"
  let ?hc = "tl (py_insert (history_cursor s) (history_index s) (cursor_position s))"
  let ?hr = "tl (py_insert (history_renderbox s) (history_index s) (renderbox s))"
  have "store_edition n s =
          s\<lparr>history := ?hs, history_cursor := ?hc, history_renderbox := ?hr,
            history_index := int (length ?hs)\<rparr>"
    using True by (simp add: store_edition_def Let_def)
  moreover have "length ?hc = length ?hs" "length ?hr = length ?hs"
    "int (length ?hs) \<le> max_history s"
    using assms by (simp_all add: history_ok_def)
  ultimately show ?thesis by blast
next
  case False
  let ?hs = "py_insert (history s) (history_index s) n"
  let ?hc = "py_insert (history_cursor s) (history_index s) (cursor_position s)"
  let ?hr = "py_insert (history_renderbox s) (history_index s) (renderbox s)"
  have "store_edition n s =
          s\<lparr>history := ?hs, history_cursor := ?hc, history_renderbox := ?hr,
            history_index := int (length ?hs)\<rparr>"
    using False by (simp add: store_edition_def Let_def)
  moreover have "length ?hc = length ?hs" "length ?hr = length ?hs"
    "int (length ?hs) \<le> max_history s"
    using assms False by (simp_all add: history_ok_def)
  ultimately show ?thesis by blast
qed

lemma update_input_string_unfold:
  "update_input_string n s =
     (if new_edition n s then
        (if history_index s \<noteq> int (length (history s)) then
           (case py_index (history s) (history_index s) of
              None \<Rightarrow> (Raises IndexError, s)
            | Some last_string \<Rightarrow>
                (case update_input_string last_string
                        (s\<lparr>history_index := int (length (history s))\<rparr>) of
                   (Raises e, s') \<Rightarrow> (Raises e, s')
                 | (Returns _, s') \<Rightarrow>
                     (Returns (), (store_edition n s')\<lparr>input_string := n\<rparr>)))
         else (Returns (), (store_edition n s)\<lparr>input_string := n\<rparr>))
      else (Returns (), s\<lparr>input_string := n\<rparr>))"
  by (subst update_input_string.simps) (simp only: new_edition_def Let_def)

lemma update_input_string_at_end:
  assumes ok: "history_ok s" and at_end: "history_index s = int (length (history s))"
  shows "\<exists>hs hc hr. update_input_string n s =
            (Returns (), s\<lparr>input_string := n, history := hs, history_cursor := hc,
                           history_renderbox := hr, history_index := int (length hs)\<rparr>)
          \<and> length hc = length hs \<and> length hr = length hs
          \<and> int (length hs) \<le> max_history s"
proof (cases "new_edition n s")
  case True
  from store_edition_frame [OF ok, of n] obtain hs hc hr where
    st: "store_edition n s =
           s\<lparr>history := hs, history_cursor := hc, history_renderbox := hr,
             history_index := int (length hs)\<rparr>"
    and len: "length hc = length hs" "length hr = length hs" "int (length hs) \<le> max_history s"
    by blast
  have "update_input_string n s = (Returns (), (store_edition n s)\<lparr>input_string := n\<rparr>)"
    using True at_end by (subst update_input_string_unfold) simp
  then have "update_input_string n s =
      (Returns (), s\<lparr>input_string := n, history := hs, history_cursor := hc,
                     history_renderbox := hr, history_index := int (length hs)\<rparr>)"
    by (simp add: st)
  with len show ?thesis by blast
next
  case False
  have "update_input_string n s = (Returns (), s\<lparr>input_string := n\<rparr>)"
    using False by (subst update_input_string_unfold) simp
  then have "update_input_string n s =
      (Returns (), s\<lparr>input_string := n, history := history s,
                     history_cursor := history_cursor s,
                     history_renderbox := history_renderbox s,
                     history_index := int (length (history s))\<rparr>)"
    using at_end by simp
  moreover have "length (history_cursor s) = length (history s)"
    "length (history_renderbox s) = length (history s)"
    "int (length (history s)) \<le> max_history s"
    using ok by (simp_all add: history_ok_def)
  ultimately show ?thesis by blast
qed

lemma update_input_string_frame:
  assumes ok: "history_ok s"
  shows "\<exists>hs hc hr hi. update_input_string n s =
            (Returns (), s\<lparr>input_string := n, history := hs, history_cursor := hc,
                           history_renderbox := hr, history_index := hi\<rparr>)
          \<and> length hc = length hs \<and> length hr = length hs
          \<and> int (length hs) \<le> max_history s \<and> 0 \<le> hi \<and> hi \<le> int (length hs)"
proof (cases "history_index s = int (length (history s))")
  case True
  from update_input_string_at_end [OF ok True, of n] show ?thesis
    by (metis of_nat_0_le_iff order_refl)
next
  case not_end: False
  show ?thesis
  proof (cases "new_edition n s")
    case False
    have "update_input_string n s = (Returns (), s\<lparr>input_string := n\<rparr>)"
      using False by (subst update_input_string_unfold) simp
    then have "update_input_string n s =
        (Returns (), s\<lparr>input_string := n, history := history s,
                       history_cursor := history_cursor s,
                       history_renderbox := history_renderbox s,
                       history_index := history_index s\<rparr>)"
      by simp
    moreover have "length (history_cursor s) = length (history s)"
      "length (history_renderbox s) = length (history s)"
      "int (length (history s)) \<le> max_history s"
      "0 \<le> history_index s" "history_index s \<le> int (length (history s))"
      using ok by (simp_all add: history_ok_def)
    ultimately show ?thesis by blast
  next
    case True
    let ?last = "history s ! nat (history_index s)"
    let ?s1 = "s\<lparr>history_index := int (length (history s))\<rparr>"
    have idx: "py_index (history s) (history_index s) = Some ?last"
      using ok not_end by (intro py_index_Some) (simp_all add: history_ok_def)
    have ok1: "history_ok ?s1" using ok by (simp add: history_ok_def)
    from update_input_string_at_end [OF ok1, of ?last] obtain hs hc hr where
      inner: "update_input_string ?last ?s1 =
                (Returns (), s\<lparr>input_string := ?last, history := hs, history_cursor := hc,
                             history_renderbox := hr, history_index := int (length hs)\<rparr>)"
      and len: "length hc = length hs" "length hr = length hs"
               "int (length hs) \<le> max_history s"
      by auto
    let ?s2 = "s\<lparr>input_string := ?last, history := hs, history_cursor := hc,
                  history_renderbox := hr, history_index := int (length hs)\<rparr>"
    have ok2: "history_ok ?s2" using len by (simp add: history_ok_def)
    from store_edition_frame [OF ok2, of n] obtain hs' hc' hr' where
      st: "store_edition n ?s2 =
             ?s2\<lparr>history := hs', history_cursor := hc', history_renderbox := hr',
                  history_index := int (length hs')\<rparr>"
      and len': "length hc' = length hs'" "length hr' = length hs'"
                "int (length hs') \<le> max_history s"
      by auto
    have "update_input_string n s = (Returns (), (store_edition n ?s2)\<lparr>input_string := n\<rparr>)"
      using True not_end idx inner
      by (subst update_input_string_unfold) simp
    then have "update_input_string n s =
        (Returns (), s\<lparr>input_string := n, history := hs', history_cursor := hc',
                       history_renderbox := hr', history_index := int (length hs')\<rparr>)"
      by (simp add: st)
    with len' show ?thesis
      by (metis of_nat_0_le_iff order_refl)
  qed
qed

lemma update_renderbox_eq:
  "update_renderbox l r a e st s =
     s\<lparr>renderbox := renderbox (update_renderbox l r a e st s), cursor_render := True\<rparr>"
  by (simp add: update_renderbox_def Let_def split: option.split)

lemma update_renderbox_frame:
  "\<exists>b. update_renderbox l r a e st s = s\<lparr>renderbox := b, cursor_render := True\<rparr>"
  using update_renderbox_eq by blast

lemma move_cursor_right_frame:
  "\<exists>b c. move_cursor_right s = s\<lparr>renderbox := b, cursor_position := c, cursor_render := True\<rparr>"
proof -
  obtain b where "update_renderbox 0 1 False False False
       (s\<lparr>cursor_position := min (cursor_position s + 1) (int (length (input_string s)))\<rparr>)
     = (s\<lparr>cursor_position := min (cursor_position s + 1) (int (length (input_string s)))\<rparr>)
         \<lparr>renderbox := b, cursor_render := True\<rparr>"
    using update_renderbox_frame by blast
  then show ?thesis
    unfolding move_cursor_right_def
    by (intro exI[of _ b]
          exI[of _ "min (cursor_position s + 1) (int (length (input_string s)))"]) simp
qed

lemma move_cursor_right_history:
  "history_ok (move_cursor_right s) = history_ok s"
  "max_history (move_cursor_right s) = max_history s"
  "input_string (move_cursor_right s) = input_string s"
proof -
  obtain b c where "move_cursor_right s = s\<lparr>renderbox := b, cursor_position := c, cursor_render := True\<rparr>"
    using move_cursor_right_frame by blast
  then show "history_ok (move_cursor_right s) = history_ok s"
  "max_history (move_cursor_right s) = max_history s"
  "input_string (move_cursor_right s) = input_string s"
    by (simp_all add: history_ok_def)
qed

lemma moves_right_history:
  "history_ok ((move_cursor_right ^^ k) s) = history_ok s
   \<and> max_history ((move_cursor_right ^^ k) s) = max_history s
   \<and> input_string ((move_cursor_right ^^ k) s) = input_string s"
  by (induction k) (simp_all add: move_cursor_right_history)

lemma init_history_ok:
  assumes "init c a = Inr s0"
  shows "history_ok s0 \<and> max_history s0 = history_arg a"
proof -
  let ?s = "(move_cursor_right ^^ (length (default_arg a) + 1)) ((blank c a)\<lparr>input_string := default_arg a\<rparr>)"
  from assms have nonneg: "0 \<le> history_arg a"
    by (simp add: init_def split: if_splits)
  have ok: "history_ok ?s" and mh: "max_history ?s = history_arg a"
    using nonneg moves_right_history [of "length (default_arg a) + 1" "(blank c a)\<lparr>input_string := default_arg a\<rparr>"]
    by (simp_all add: history_ok_def blank_def)
  from update_input_string_frame [OF ok, of "default_arg a"] obtain hs hc hr hi where
    r: "update_input_string (default_arg a) ?s =
          (Returns (), ?s\<lparr>input_string := default_arg a, history := hs, history_cursor := hc,
                           history_renderbox := hr, history_index := hi\<rparr>)"
    and len: "length hc = length hs" "length hr = length hs" "int (length hs) \<le> max_history ?s"
       "0 \<le> hi" "hi \<le> int (length hs)"
    by blast
  from assms r have "s0 = ?s\<lparr>input_string := default_arg a, history := hs, history_cursor := hc,
                           history_renderbox := hr, history_index := hi\<rparr>"
    by (simp add: init_def Let_def split: if_splits)
  with len mh show ?thesis by (simp add: history_ok_def)
qed

lemma update_input_strings_ok:
  "history_ok s0 \<Longrightarrow>
   \<exists>s. update_input_strings ns s0 = (Returns (), s) \<and> history_ok s
        \<and> max_history s = max_history s0"
proof (induction ns arbitrary: s0)
  case Nil
  then show ?case by simp
next
  case (Cons n ns)
  from update_input_string_frame [OF Cons.prems, of n] obtain hs hc hr hi where
    r: "update_input_string n s0 =
          (Returns (), s0\<lparr>input_string := n, history := hs, history_cursor := hc,
                           history_renderbox := hr, history_index := hi\<rparr>)"
    and len: "length hc = length hs" "length hr = length hs" "int (length hs) \<le> max_history s0"
       "0 \<le> hi" "hi \<le> int (length hs)"
    by blast
  let ?s1 = "s0\<lparr>input_string := n, history := hs, history_cursor := hc,
                           history_renderbox := hr, history_index := hi\<rparr>"
  have "history_ok ?s1" using len by (simp add: history_ok_def)
  from Cons.IH [OF this] r show ?case by simp
qed

lemma py_index_last:
  "xs \<noteq> [] \<Longrightarrow> py_index xs (int (length xs) - 1) = Some (last xs)"
  by (simp add: py_index_def Let_def last_conv_nth nat_diff_distrib')

lemma update_input_string_same:
  assumes "max_history s = 0 \<or> (history s \<noteq> [] \<and> last (history s) = n)"
  shows "update_input_string n s = (Returns (), s\<lparr>input_string := n\<rparr>)"
proof -
  have "\<not> new_edition n s"
    using assms by (auto simp: new_edition_def py_index_last)
  then show ?thesis by (subst update_input_string_unfold) simp
qed

lemma init_returns:
  assumes "0 \<le> maxchar_arg a" "0 \<le> maxwidth_arg a" "0 \<le> history_arg a"
    and "check_input_type (blank c a) (default_arg a)"
  shows "\<exists>s0. init c a = Inr s0"
proof -
  let ?s = "(move_cursor_right ^^ (length (default_arg a) + 1))
              ((blank c a)\<lparr>input_string := default_arg a\<rparr>)"
  have "history_ok ?s"
    using assms(3)
      moves_right_history [of "length (default_arg a) + 1"
        "(blank c a)\<lparr>input_string := default_arg a\<rparr>"]
    by (simp add: history_ok_def blank_def)
  from update_input_string_frame [OF this, of "default_arg a"] obtain s' where
    "update_input_string (default_arg a) ?s = (Returns (), s')"
    by blast
  with assms show ?thesis by (simp add: init_def Let_def)
qed

text \<open>
  Claim C3.  For a widget constructed with \<open>history = h\<close> (\<open>history_arg a\<close>), after
  any sequence of calls of \<open>_update_input_string\<close> no call has raised, the three history
  lists have equal lengths, that length is at most \<open>h\<close>, the index lies between 0 and the
  length, and a further call whose string equals the last stored edition, or any call
  when \<open>h = 0\<close>, leaves the three lists as they are.
\<close>

theorem history_lists_invariant:
  assumes "init c a = Inr s0"
  shows "\<exists>s. update_input_strings ns s0 = (Returns (), s)
           \<and> length (history_cursor s) = length (history s)
           \<and> length (history_renderbox s) = length (history s)
           \<and> int (length (history s)) \<le> history_arg a
           \<and> 0 \<le> history_index s \<and> history_index s \<le> int (length (history s))
           \<and> (\<forall>n. history_arg a = 0 \<or> (history s \<noteq> [] \<and> last (history s) = n) \<longrightarrow>
                 (\<exists>s'. update_input_string n s = (Returns (), s')
                       \<and> history s' = history s
                       \<and> history_cursor s' = history_cursor s
                       \<and> history_renderbox s' = history_renderbox s))"
proof -
  from init_history_ok [OF assms] have ok0: "history_ok s0" and mh0: "max_history s0 = history_arg a"
    by simp_all
  from update_input_strings_ok [OF ok0, of ns] obtain s where
    run: "update_input_strings ns s0 = (Returns (), s)" and ok: "history_ok s"
    and mh: "max_history s = history_arg a"
    using mh0 by auto
  have same: "\<forall>n. history_arg a = 0 \<or> (history s \<noteq> [] \<and> last (history s) = n) \<longrightarrow>
                 (\<exists>s'. update_input_string n s = (Returns (), s')
                       \<and> history s' = history s
                       \<and> history_cursor s' = history_cursor s
                       \<and> history_renderbox s' = history_renderbox s)"
  proof (intro allI impI)
    fix n assume "history_arg a = 0 \<or> (history s \<noteq> [] \<and> last (history s) = n)"
    then have "update_input_string n s = (Returns (), s\<lparr>input_string := n\<rparr>)"
      using mh by (intro update_input_string_same) simp
    then show "\<exists>s'. update_input_string n s = (Returns (), s')
                       \<and> history s' = history s
                       \<and> history_cursor s' = history_cursor s
                       \<and> history_renderbox s' = history_renderbox s"
      by simp
  qed
  from ok mh have "length (history_cursor s) = length (history s)"
    "length (history_renderbox s) = length (history s)"
    "int (length (history s)) \<le> history_arg a"
    "0 \<le> history_index s" "history_index s \<le> int (length (history s))"
    by (simp_all add: history_ok_def)
  with run same show ?thesis
    by (intro exI[of _ s] conjI)
qed

text \<open>The invariant at work: three editions pushed through a history of two.\<close>

theorem history_lists_invariant_witness:
  "\<exists>s0 s. init example_controls (default_args\<lparr>history_arg := 2\<rparr>) = Inr s0
     \<and> update_input_strings [''a'', ''b'', ''c''] s0 = (Returns (), s)
     \<and> length (history_cursor s) = length (history s)
     \<and> length (history_renderbox s) = length (history s)
     \<and> int (length (history s)) \<le> 2
     \<and> 0 \<le> history_index s \<and> history_index s \<le> int (length (history s))"
proof -
  have "\<exists>s0. init example_controls (default_args\<lparr>history_arg := 2\<rparr>) = Inr s0"
    by (rule init_returns) (simp_all add: default_args_def check_input_type_def)
  then obtain s0 where i: "init example_controls (default_args\<lparr>history_arg := 2\<rparr>) = Inr s0"
    by blast
  from history_lists_invariant [OF i, of "[''a'', ''b'', ''c'']"] i show ?thesis
    by (simp add: default_args_def) blast
qed

lemma undo_at_start: "history_index s = 0 \<Longrightarrow> undo s = (Returns False, s)"
  by (simp add: undo_def)

lemma update_from_history_restores:
  assumes "length (history_cursor s) = length (history s)"
    and "length (history_renderbox s) = length (history s)"
    and "0 \<le> history_index s" and "history_index s < int (length (history s))"
  shows "update_from_history s =
           (Returns (), s\<lparr>input_string := history s ! nat (history_index s),
                          renderbox := history_renderbox s ! nat (history_index s),
                          cursor_position := history_cursor s ! nat (history_index s),
                          cursor_render := True\<rparr>)"
  using assms by (simp add: update_from_history_def py_index_Some Let_def)

lemma undo_restores:
  assumes ok: "history_ok s" and nz: "history_index s \<noteq> 0"
    and i: "i = nat (max 0 ((if history_index s = int (length (history s))
                             then history_index s - 1 else history_index s) - 1))"
  shows "undo s =
           (Returns True, s\<lparr>input_string := history s ! i,
                            renderbox := history_renderbox s ! i,
                            cursor_position := history_cursor s ! i,
                            cursor_render := True,
                            history_index := int i\<rparr>)"
proof -
  let ?s = "s\<lparr>history_index := int i\<rparr>"
  have "update_from_history ?s =
           (Returns (), ?s\<lparr>input_string := history ?s ! nat (history_index ?s),
                          renderbox := history_renderbox ?s ! nat (history_index ?s),
                          cursor_position := history_cursor ?s ! nat (history_index ?s),
                          cursor_render := True\<rparr>)"
    using assms by (intro update_from_history_restores) (auto simp: history_ok_def)
  then have upd: "update_from_history ?s =
           (Returns (), ?s\<lparr>input_string := history s ! i,
                          renderbox := history_renderbox s ! i,
                          cursor_position := history_cursor s ! i,
                          cursor_render := True\<rparr>)"
    by simp
  show ?thesis
  proof (cases "history_index s = int (length (history s))")
    case True
    then have "max 0 (int (length (history s)) - 2) = int i"
      using i by simp
    with True nz upd show ?thesis
      by (simp add: undo_def Let_def)
  next
    case False
    then have "max 0 (history_index s - 1) = int i"
      using i by simp
    with False nz upd show ?thesis
      by (simp add: undo_def Let_def)
  qed
qed

lemma redo_at_last:
  "history_index s = int (length (history s)) - 1 \<Longrightarrow> redo s = (Returns False, s)"
  by (simp add: redo_def)

lemma redo_restores:
  assumes ok: "history_ok s" and ne: "history s \<noteq> []"
    and nl: "history_index s \<noteq> int (length (history s)) - 1"
    and i: "i = nat (min (int (length (history s)) - 1) (history_index s + 1))"
  shows "redo s =
           (Returns True, s\<lparr>input_string := history s ! i,
                            renderbox := history_renderbox s ! i,
                            cursor_position := history_cursor s ! i,
                            cursor_render := True,
                            history_index := int i\<rparr>)"
proof -
  let ?s = "s\<lparr>history_index := int i\<rparr>"
  have "update_from_history ?s =
           (Returns (), ?s\<lparr>input_string := history ?s ! nat (history_index ?s),
                          renderbox := history_renderbox ?s ! nat (history_index ?s),
                          cursor_position := history_cursor ?s ! nat (history_index ?s),
                          cursor_render := True\<rparr>)"
    using assms by (intro update_from_history_restores) (auto simp: history_ok_def)
  then have upd: "update_from_history ?s =
           (Returns (), ?s\<lparr>input_string := history s ! i,
                          renderbox := history_renderbox s ! i,
                          cursor_position := history_cursor s ! i,
                          cursor_render := True\<rparr>)"
    by simp
  have "min (int (length (history s)) - 1) (history_index s + 1) = int i"
    using i ok ne by (simp add: history_ok_def)
  with nl upd show ?thesis
    by (simp add: redo_def Let_def)
qed

lemma redo_empty_history:
  assumes "history s = []" and "history_index s = 0"
  shows "redo s = (Raises IndexError, s\<lparr>history_index := - 1\<rparr>)"
  using assms by (simp add: redo_def update_from_history_def py_index_def Let_def)

lemma update_renderbox_fields [simp]:
  "input_string (update_renderbox l r a e st s) = input_string s"
  "cursor_position (update_renderbox l r a e st s) = cursor_position s"
  "effects (update_renderbox l r a e st s) = effects s"
  by (subst update_renderbox_eq, simp)+

lemma emit_fields [simp]:
  "input_string (emit e s) = input_string s"
  "cursor_position (emit e s) = cursor_position s"
  "effects (emit e s) = effects s @ [e]"
  "history_ok (emit e s) = history_ok s"
  by (simp_all add: emit_def history_ok_def)

lemma update_input_string_fields:
  assumes "history_ok s"
  shows "\<exists>s'. update_input_string n s = (Returns (), s') \<and> input_string s' = n
              \<and> cursor_position s' = cursor_position s \<and> effects s' = effects s"
proof -
  from update_input_string_frame [OF assms, of n] obtain hs hc hr hi where
    "update_input_string n s =
       (Returns (), s\<lparr>input_string := n, history := hs, history_cursor := hc,
                      history_renderbox := hr, history_index := hi\<rparr>)"
    by blast
  then show ?thesis by simp
qed

lemma key_pressed_backspace:
  assumes "history_ok s"
  shows "\<exists>s1. key_pressed h K_BACKSPACE u upd s = (Continue True, s1)
            \<and> input_string s1 =
                py_slice_to (input_string s) (max (cursor_position s - 1) 0)
                @ py_slice_from (input_string s) (cursor_position s)
            \<and> cursor_position s1 = max (cursor_position s - 1) 0
            \<and> effects s1 =
                effects s @ [if cursor_position s = 0 then Play_event_error else Play_key_del,
                             Change]"
proof -
  let ?sa = "emit (if cursor_position s = 0 then Play_event_error else Play_key_del) s"
  let ?new = "py_slice_to (input_string s) (max (cursor_position s - 1) 0)
                @ py_slice_from (input_string s) (cursor_position s)"
  have "history_ok ?sa" using assms by simp
  from update_input_string_fields [OF this, of ?new] obtain sb where
    "update_input_string ?new ?sa = (Returns (), sb)" "input_string sb = ?new"
    "cursor_position sb = cursor_position s"
    "effects sb = effects s @ [if cursor_position s = 0 then Play_event_error else Play_key_del]"
    by auto
  then show ?thesis
    by (simp add: key_pressed_def Let_def)
qed

lemma key_pressed_delete:
  assumes "history_ok s"
  shows "\<exists>s1. key_pressed h K_DELETE u upd s = (Continue True, s1)
            \<and> input_string s1 =
                py_slice_to (input_string s) (cursor_position s)
                @ py_slice_from (input_string s) (cursor_position s + 1)
            \<and> cursor_position s1 = cursor_position s
            \<and> effects s1 =
                effects s @ [if cursor_position s = int (length (input_string s))
                             then Play_event_error else Play_key_del, Change]"
proof -
  let ?sa = "emit (if cursor_position s = int (length (input_string s))
                   then Play_event_error else Play_key_del) s"
  let ?new = "py_slice_to (input_string s) (cursor_position s)
                @ py_slice_from (input_string s) (cursor_position s + 1)"
  have "history_ok ?sa" using assms by simp
  from update_input_string_fields [OF this, of ?new] obtain sb where
    "update_input_string ?new ?sa = (Returns (), sb)" "input_string sb = ?new"
    "cursor_position sb = cursor_position s"
    "effects sb = effects s @ [if cursor_position s = int (length (input_string s))
                   then Play_event_error else Play_key_del]"
    by auto
  then show ?thesis
    by (simp add: key_pressed_def Let_def)
qed

lemma note_key_down_fields [simp]:
  "input_string (note_key_down k u s) = input_string s"
  "cursor_position (note_key_down k u s) = cursor_position s"
  "effects (note_key_down k u s) = effects s"
  "history_ok (note_key_down k u s) = history_ok s"
  by (simp_all add: note_key_down_def Let_def history_ok_def)

lemma move_cursor_input_string [simp]:
  "input_string (move_cursor_left s) = input_string s"
  "input_string (move_cursor_right s) = input_string s"
  by (simp_all add: move_cursor_left_def move_cursor_right_def)

lemma update_cursor_mouse_input_string [simp]:
  "input_string (update_cursor_mouse h x s) = input_string s"
  by (simp add: update_cursor_mouse_def Let_def)

lemma check_mouse_collide_input_string [simp]:
  "input_string (check_mouse_collide_input h p s) = input_string s"
  by (simp add: check_mouse_collide_input_def)

lemma after_events_input_string [simp]:
  "input_string (after_events h s) = input_string s"
  by (simp add: after_events_def Let_def split: prod.split)

lemma after_events_cursor:
  "\<not> fst (mouse_pressed h) \<Longrightarrow> cursor_position (after_events h s) = cursor_position s"
  by (cases "mouse_pressed h") (auto simp: after_events_def Let_def split: prod.split)

text \<open>
  Claim C6.  In a widget whose history bookkeeping is sound, \<open>update\<close> on one key press
  that passes \<open>check_key_pressed_valid\<close> with no control key held does the following.
  For \<open>K_BACKSPACE\<close>, with string \<open>s\<close> and cursor \<open>p\<close>, the loop leaves the string
  \<open>s[:max(p-1,0)] + s[p:]\<close> and the cursor \<open>max(p-1,0)\<close>, having played the error sound
  when \<open>p = 0\<close> and the deletion sound otherwise; for \<open>K_DELETE\<close> it leaves
  \<open>s[:p] + s[p+1:]\<close> and the cursor \<open>p\<close>, the error sound being played when
  \<open>p = len(s)\<close>.  In both cases \<open>update\<close> returns \<open>True\<close>; what it does after the
  loop keeps the string, and keeps the cursor unless the left mouse button is held.
\<close>

theorem backspace_and_delete_keys:
  assumes "history_ok s"
  shows
    "(\<exists>s1. update_events h [KEYDOWN K_BACKSPACE u True False] False s = (Continue True, s1)
        \<and> update h [KEYDOWN K_BACKSPACE u True False] s
            = (Returns (Some True), after_events h s1)
        \<and> input_string s1 =
            py_slice_to (input_string s) (max (cursor_position s - 1) 0)
            @ py_slice_from (input_string s) (cursor_position s)
        \<and> cursor_position s1 = max (cursor_position s - 1) 0
        \<and> effects s1 =
            effects s @ [if cursor_position s = 0 then Play_event_error else Play_key_del,
                         Change]
        \<and> input_string (after_events h s1) = input_string s1
        \<and> (\<not> fst (mouse_pressed h)
             \<longrightarrow> cursor_position (after_events h s1) = cursor_position s1))
     \<and>
     (\<exists>s1. update_events h [KEYDOWN K_DELETE u True False] False s = (Continue True, s1)
        \<and> update h [KEYDOWN K_DELETE u True False] s
            = (Returns (Some True), after_events h s1)
        \<and> input_string s1 =
            py_slice_to (input_string s) (cursor_position s)
            @ py_slice_from (input_string s) (cursor_position s + 1)
        \<and> cursor_position s1 = cursor_position s
        \<and> effects s1 =
            effects s @ [if cursor_position s = int (length (input_string s))
                         then Play_event_error else Play_key_del, Change]
        \<and> input_string (after_events h s1) = input_string s1
        \<and> (\<not> fst (mouse_pressed h)
             \<longrightarrow> cursor_position (after_events h s1) = cursor_position s1))"
proof (rule conjI)
  have "history_ok (note_key_down K_BACKSPACE u s)" using assms by simp
  from key_pressed_backspace [OF this, of h u False] obtain s1 where
    "key_pressed h K_BACKSPACE u False (note_key_down K_BACKSPACE u s) = (Continue True, s1)"
    "input_string s1 =
            py_slice_to (input_string s) (max (cursor_position s - 1) 0)
            @ py_slice_from (input_string s) (cursor_position s)"
    "cursor_position s1 = max (cursor_position s - 1) 0"
    "effects s1 =
            effects s @ [if cursor_position s = 0 then Play_event_error else Play_key_del,
                         Change]"
    by auto
  then show "\<exists>s1. update_events h [KEYDOWN K_BACKSPACE u True False] False s = (Continue True, s1)
        \<and> update h [KEYDOWN K_BACKSPACE u True False] s
            = (Returns (Some True), after_events h s1)
        \<and> input_string s1 =
            py_slice_to (input_string s) (max (cursor_position s - 1) 0)
            @ py_slice_from (input_string s) (cursor_position s)
        \<and> cursor_position s1 = max (cursor_position s - 1) 0
        \<and> effects s1 =
            effects s @ [if cursor_position s = 0 then Play_event_error else Play_key_del,
                         Change]
        \<and> input_string (after_events h s1) = input_string s1
        \<and> (\<not> fst (mouse_pressed h)
             \<longrightarrow> cursor_position (after_events h s1) = cursor_position s1)"
    by (intro exI[of _ s1]) (simp add: update_def handle_event_def after_events_cursor)
next
  have "history_ok (note_key_down K_DELETE u s)" using assms by simp
  from key_pressed_delete [OF this, of h u False] obtain s1 where
    "key_pressed h K_DELETE u False (note_key_down K_DELETE u s) = (Continue True, s1)"
    "input_string s1 =
            py_slice_to (input_string s) (cursor_position s)
            @ py_slice_from (input_string s) (cursor_position s + 1)"
    "cursor_position s1 = cursor_position s"
    "effects s1 =
            effects s @ [if cursor_position s = int (length (input_string s))
                         then Play_event_error else Play_key_del, Change]"
    by auto
  then show "\<exists>s1. update_events h [KEYDOWN K_DELETE u True False] False s = (Continue True, s1)
        \<and> update h [KEYDOWN K_DELETE u True False] s
            = (Returns (Some True), after_events h s1)
        \<and> input_string s1 =
            py_slice_to (input_string s) (cursor_position s)
            @ py_slice_from (input_string s) (cursor_position s + 1)
        \<and> cursor_position s1 = cursor_position s
        \<and> effects s1 =
            effects s @ [if cursor_position s = int (length (input_string s))
                         then Play_event_error else Play_key_del, Change]
        \<and> input_string (after_events h s1) = input_string s1
        \<and> (\<not> fst (mouse_pressed h)
             \<longrightarrow> cursor_position (after_events h s1) = cursor_position s1)"
    by (intro exI[of _ s1]) (simp add: update_def handle_event_def after_events_cursor)
qed

text \<open>Both keys on the string \<open>ab\<close> with the cursor between the letters.\<close>

theorem backspace_and_delete_keys_witness:
  "history_ok ((blank example_controls default_args)\<lparr>input_string := ''ab'', cursor_position := 1\<rparr>)
   \<and> (\<exists>s1. update idle_host [KEYDOWN K_BACKSPACE [] True False]
              ((blank example_controls default_args)\<lparr>input_string := ''ab'', cursor_position := 1\<rparr>)
              = (Returns (Some True), after_events idle_host s1)
            \<and> input_string s1 = ''b'' \<and> cursor_position s1 = 0
            \<and> effects s1 = [Play_key_del, Change])
   \<and> (\<exists>s1. update idle_host [KEYDOWN K_DELETE [] True False]
              ((blank example_controls default_args)\<lparr>input_string := ''ab'', cursor_position := 1\<rparr>)
              = (Returns (Some True), after_events idle_host s1)
            \<and> input_string s1 = ''a'' \<and> cursor_position s1 = 1
            \<and> effects s1 = [Play_key_del, Change])"
proof -
  let ?s = "(blank example_controls default_args)\<lparr>input_string := ''ab'', cursor_position := 1\<rparr>"
  have ok: "history_ok ?s"
    by (simp add: history_ok_def blank_def default_args_def)
  have f: "input_string ?s = ''ab''" "cursor_position ?s = 1" "effects ?s = []"
    by (simp_all add: blank_def)
  have sl: "py_slice_to ''ab'' 0 = []" "py_slice_from ''ab'' 1 = ''b''"
    "py_slice_to ''ab'' 1 = ''a''" "py_slice_from ''ab'' 2 = []"
    by (simp_all add: py_slice_to_def py_slice_from_def py_bound_def)
  note th = backspace_and_delete_keys [OF ok, of idle_host "[]", unfolded f]
  from th obtain s1 where b:
    "update idle_host [KEYDOWN K_BACKSPACE [] True False] ?s
       = (Returns (Some True), after_events idle_host s1)"
    "input_string s1 = py_slice_to ''ab'' (max (1 - 1) 0) @ py_slice_from ''ab'' 1"
    "cursor_position s1 = max (1 - 1) 0"
    "effects s1 = [] @ [if (1::int) = 0 then Play_event_error else Play_key_del, Change]"
    by blast
  from th obtain s2 where d:
    "update idle_host [KEYDOWN K_DELETE [] True False] ?s
       = (Returns (Some True), after_events idle_host s2)"
    "input_string s2 = py_slice_to ''ab'' 1 @ py_slice_from ''ab'' (1 + 1)"
    "cursor_position s2 = 1"
    "effects s2 = [] @ [if (1::int) = int (length ''ab'') then Play_event_error
                        else Play_key_del, Change]"
    by blast
  have "input_string s1 = ''b''" "cursor_position s1 = 0" "effects s1 = [Play_key_del, Change]"
    using b(2-4) by (simp_all add: sl)
  moreover have "input_string s2 = ''a''" "cursor_position s2 = 1"
    "effects s2 = [Play_key_del, Change]"
    using d(2-4) by (simp_all add: sl)
  ultimately show ?thesis using ok b(1) d(1) by blast
qed

subsection \<open>Where the widget leaves its invariants\<close>

lemma update_renderbox_no_maxwidth:
  "maxwidth s = 0 \<Longrightarrow> update_renderbox l r a e st s = s\<lparr>cursor_render := True\<rparr>"
  by (simp add: update_renderbox_def Let_def)

lemma move_cursor_right_no_maxwidth:
  "maxwidth s = 0 \<Longrightarrow>
   move_cursor_right s =
     s\<lparr>cursor_position := min (cursor_position s + 1) (int (length (input_string s))),
       cursor_render := True\<rparr>"
  by (simp add: move_cursor_right_def update_renderbox_no_maxwidth)

lemma moves_right_no_maxwidth:
  "maxwidth s = 0 \<Longrightarrow> cursor_position s \<le> int (length (input_string s)) \<Longrightarrow>
   (move_cursor_right ^^ Suc k) s =
     s\<lparr>cursor_position := min (cursor_position s + int (Suc k)) (int (length (input_string s))),
       cursor_render := True\<rparr>"
proof (induction k)
  case 0
  then show ?case by (simp add: move_cursor_right_no_maxwidth)
next
  case (Suc k)
  have "(move_cursor_right ^^ Suc (Suc k)) s = move_cursor_right ((move_cursor_right ^^ Suc k) s)"
    by simp
  also have "\<dots> = move_cursor_right
      (s\<lparr>cursor_position := min (cursor_position s + int (Suc k)) (int (length (input_string s))),
         cursor_render := True\<rparr>)"
    using Suc by simp
  also have "\<dots> = s\<lparr>cursor_position := min (cursor_position s + int (Suc (Suc k))) (int (length (input_string s))),
       cursor_render := True\<rparr>"
    using Suc.prems by (simp add: move_cursor_right_no_maxwidth min_def)
  finally show ?case .
qed

lemma init_no_maxwidth:
  assumes i: "init c a = Inr s0" and mw: "maxwidth_arg a = 0"
  shows "input_string s0 = default_arg a \<and> cursor_position s0 = int (length (default_arg a))
       \<and> maxchar s0 = maxchar_arg a \<and> maxwidth s0 = 0 \<and> input_type s0 = input_type_arg a
       \<and> \<not> block_copy_paste s0 \<and> effects s0 = [] \<and> history_ok s0"
proof -
  let ?b = "(blank c a)\<lparr>input_string := default_arg a\<rparr>"
  let ?s = "(move_cursor_right ^^ (length (default_arg a) + 1)) ?b"
  have b: "maxwidth ?b = 0" "cursor_position ?b \<le> int (length (input_string ?b))"
    using mw by (simp_all add: blank_def)
  have s: "?s = ?b\<lparr>cursor_position := int (length (default_arg a)), cursor_render := True\<rparr>"
    using moves_right_no_maxwidth [OF b, of "length (default_arg a)"]
    by (simp add: blank_def)
  from i have nonneg: "0 \<le> history_arg a"
    by (simp add: init_def split: if_splits)
  have ok: "history_ok ?s"
    unfolding s using nonneg by (simp add: history_ok_def blank_def)
  from update_input_string_frame [OF ok, of "default_arg a"] obtain hs hc hr hi where
    r: "update_input_string (default_arg a) ?s =
          (Returns (), ?s\<lparr>input_string := default_arg a, history := hs, history_cursor := hc,
                           history_renderbox := hr, history_index := hi\<rparr>)"
    by blast
  from i r have s0: "s0 = ?s\<lparr>input_string := default_arg a, history := hs, history_cursor := hc,
                           history_renderbox := hr, history_index := hi\<rparr>"
    by (simp add: init_def Let_def split: if_splits)
  from init_history_ok [OF i] have "history_ok s0" by simp
  moreover have "input_string s0 = default_arg a" "cursor_position s0 = int (length (default_arg a))"
    "maxchar s0 = maxchar_arg a" "maxwidth s0 = 0" "input_type s0 = input_type_arg a"
    "\<not> block_copy_paste s0" "effects s0 = []"
    unfolding s0 s using mw by (simp_all add: blank_def)
  ultimately show ?thesis by simp
qed

text \<open>
  Claim C1.  The render-window invariant is not preserved.  A widget is constructed with
  \<open>maxwidth = 2\<close>; a, b, c, d are typed and the left arrow is pressed twice, one event a
  frame.  The invariant holds then: the string is \<open>abcd\<close>, the cursor 2, the box
  \<open>[2, 4, 0]\<close>.  Backspace deletes the b; \<open>_update_renderbox(left=-1, addition=True)\<close>
  returns at ``If backspace at begining of string'', since the inner position is 0, and
  the box stays \<open>[2, 4, 0]\<close> beside the string \<open>acd\<close> of length 3: its right end is
  past the string, and the widget draws \<open>...d...\<close>.
\<close>

theorem renderbox_stale_after_backspace:
  "(case init example_controls (default_args\<lparr>maxwidth_arg := 2\<rparr>) of
      Inl e \<Rightarrow> False
    | Inr s0 \<Rightarrow>
        (let s1 = frames idle_host
                    [typed CHR ''a'', typed CHR ''b'', typed CHR ''c'', typed CHR ''d'',
                     pressed K_LEFT, pressed K_LEFT] s0
         in renderbox_ok s0 \<and> renderbox_ok s1
            \<and> input_string s1 = ''abcd'' \<and> cursor_position s1 = 2 \<and> renderbox s1 = (2, 4, 0)
            \<and> (case update idle_host [pressed K_BACKSPACE] s1 of
                 (r, s) \<Rightarrow>
                   r = Returns (Some True) \<and> input_string s = ''acd'' \<and> cursor_position s = 1
                   \<and> maxwidth s = 2 \<and> renderbox s = (2, 4, 0) \<and> \<not> renderbox_ok s
                   \<and> get_input_string s = ''...d...'')))"
  by code_simp

text \<open>
  The same with the delete key in a string that fits: after a, b and the left arrow the box
  is \<open>[0, 2, 1]\<close>; delete removes the b, the method returns at ``If del at the end of
  string'' because the inner position equals the new length, and the box keeps its right
  end 2 beside a string of length 1.
\<close>

lemma renderbox_stale_after_delete:
  "(case init example_controls (default_args\<lparr>maxwidth_arg := 5\<rparr>) of
      Inl e \<Rightarrow> False
    | Inr s0 \<Rightarrow>
        (let s1 = frames idle_host [typed CHR ''a'', typed CHR ''b'', pressed K_LEFT] s0
         in renderbox_ok s1 \<and> input_string s1 = ''ab'' \<and> cursor_position s1 = 1
            \<and> renderbox s1 = (0, 2, 1)
            \<and> (case update idle_host [pressed K_DELETE] s1 of
                 (r, s) \<Rightarrow>
                   r = Returns (Some True) \<and> input_string s = ''a''
                   \<and> renderbox s = (0, 2, 1) \<and> \<not> renderbox_ok s)))"
  by code_simp

text \<open>
  Claim C2.  \<open>_undo\<close> does what the claim says, and so does \<open>_redo\<close> when the history
  is not empty (the lemmas \<open>undo_at_start\<close>, \<open>undo_restores\<close>, \<open>redo_at_last\<close> and
  \<open>redo_restores\<close> above).  A widget constructed with \<open>history = 0\<close> never stores an
  edition; there \<open>_redo\<close> neither returns \<open>False\<close> nor \<open>True\<close>: it sets the index to
  -1 and raises IndexError in \<open>_update_from_history\<close>.
\<close>

lemma no_history_kept:
  "history_ok s \<Longrightarrow> max_history s = 0 \<Longrightarrow> history s = [] \<and> history_index s = 0"
  by (auto simp: history_ok_def)

theorem redo_raises_without_history:
  "\<exists>s0. init example_controls (default_args\<lparr>history_arg := 0\<rparr>) = Inr s0
     \<and> history s0 = [] \<and> history_index s0 = 0
     \<and> redo s0 = (Raises IndexError, s0\<lparr>history_index := - 1\<rparr>)"
proof -
  let ?a = "default_args\<lparr>history_arg := 0\<rparr>"
  have "\<exists>s0. init example_controls ?a = Inr s0"
    by (rule init_returns) (simp_all add: default_args_def check_input_type_def blank_def)
  then obtain s0 where i: "init example_controls ?a = Inr s0" by blast
  from init_history_ok [OF i] have "history_ok s0" "max_history s0 = 0" by simp_all
  then have e: "history s0 = []" "history_index s0 = 0"
    using no_history_kept by blast+
  from redo_empty_history [OF e] i e show ?thesis by blast
qed

text \<open>
  Claim C4.  \<open>_paste\<close> lets the string grow to \<open>maxchar + 1\<close> characters: the limit it
  computes is \<open>maxchar - len(_input_string) + 1\<close>.  With \<open>maxchar = 3\<close> and the string
  \<open>abc\<close>, which leaves no room, pasting \<open>xyz\<close> returns \<open>True\<close> and the string is
  \<open>abcx\<close>.
\<close>

lemma check_input_type_text:
  "input_type s = PYGAME_INPUT_TEXT \<Longrightarrow> check_input_type s string"
  by (simp add: check_input_type_def)

lemma paste_accepted:
  assumes nb: "\<not> block_copy_paste s"
    and t: "pasted = translate_escapes (filter (\<lambda>c. c \<noteq> CHR 0x0D)
                     (filter (\<lambda>c. c \<noteq> CHR 0x0A) (py_strip clip)))"
    and ne: "pasted \<noteq> []"
    and e: "text_end =
              (if maxchar s \<noteq> 0
               then min (maxchar s - int (length (input_string s)) + 1) (int (length pasted))
               else int (length pasted))"
    and room: "maxchar s = 0 \<or> 0 < text_end"
    and n: "new_string =
              py_slice (input_string s) 0 (cursor_position s) @ py_slice pasted 0 text_end
              @ py_slice (input_string s) (cursor_position s) (int (length (input_string s)))"
    and ty: "check_input_type s new_string" and ok: "history_ok s"
  shows "fst (paste clip s) = Returns True \<and> input_string (snd (paste clip s)) = new_string"
proof -
  define X where
    "X = (move_cursor_right ^^ (length pasted + 1))
           ((emit Play_key_add s)\<lparr>input_string := new_string\<rparr>)"
  have "history_ok X"
    unfolding X_def
    using ok moves_right_history [of "length pasted + 1"
        "(emit Play_key_add s)\<lparr>input_string := new_string\<rparr>"]
    by (simp add: history_ok_def emit_def)
  from update_input_string_fields [OF this, of new_string] obtain s' where
    u: "update_input_string new_string X = (Returns (), s')" "input_string s' = new_string"
    by blast
  have "paste clip s = (Returns True, (emit Change s')\<lparr>block_copy_paste := True\<rparr>)"
    unfolding paste_def Let_def t [symmetric] e [symmetric] n [symmetric] X_def [symmetric]
    using nb ne room ty u(1) by auto
  with u(2) show ?thesis by (simp add: emit_def)
qed

theorem paste_exceeds_maxchar:
  "\<exists>s0. init example_controls (default_args\<lparr>default_arg := ''abc'', maxchar_arg := 3\<rparr>) = Inr s0
     \<and> input_string s0 = ''abc'' \<and> maxchar s0 = 3
     \<and> fst (paste ''xyz'' s0) = Returns True
     \<and> input_string (snd (paste ''xyz'' s0)) = ''abcx''
     \<and> int (length (input_string (snd (paste ''xyz'' s0)))) > maxchar s0"
proof -
  let ?a = "default_args\<lparr>default_arg := ''abc'', maxchar_arg := 3\<rparr>"
  have "\<exists>s0. init example_controls ?a = Inr s0"
    by (rule init_returns) (simp_all add: default_args_def check_input_type_def blank_def)
  then obtain s0 where i: "init example_controls ?a = Inr s0" by blast
  from init_no_maxwidth [OF i] have f: "input_string s0 = ''abc''" "cursor_position s0 = 3"
    "maxchar s0 = 3" "input_type s0 = PYGAME_INPUT_TEXT"
    "\<not> block_copy_paste s0" "history_ok s0"
    by (simp_all add: default_args_def)
  have clip: "''xyz'' = translate_escapes (filter (\<lambda>c. c \<noteq> CHR 0x0D)
                (filter (\<lambda>c. c \<noteq> CHR 0x0A) (py_strip ''xyz'')))"
    by code_simp
  have "fst (paste ''xyz'' s0) = Returns True \<and> input_string (snd (paste ''xyz'' s0)) = ''abcx''"
  proof (rule paste_accepted [where pasted = "''xyz''" and text_end = 1])
    show "\<not> block_copy_paste s0" by (rule f(5))
    show "''xyz'' = translate_escapes (filter (\<lambda>c. c \<noteq> CHR 0x0D)
                (filter (\<lambda>c. c \<noteq> CHR 0x0A) (py_strip ''xyz'')))" by (rule clip)
    show "''xyz'' \<noteq> []" by simp
    show "1 = (if maxchar s0 \<noteq> 0
               then min (maxchar s0 - int (length (input_string s0)) + 1) (int (length ''xyz''))
               else int (length ''xyz''))" by (simp add: f)
    show "maxchar s0 = 0 \<or> 0 < (1::int)" by simp
    show "''abcx'' =
              py_slice (input_string s0) 0 (cursor_position s0) @ py_slice ''xyz'' 0 1
              @ py_slice (input_string s0) (cursor_position s0) (int (length (input_string s0)))"
      by (simp add: f py_slice_def py_bound_def)
    show "check_input_type s0 ''abcx''" by (rule check_input_type_text) (rule f(4))
    show "history_ok s0" by (rule f(6))
  qed
  with i f show ?thesis by simp
qed

text \<open>
  The text pasted is not free of newlines either: the translation that follows the removal
  of \<open>\n\<close> and \<open>\r\<close> maps a tab inside the text to a newline.
\<close>

lemma tab_becomes_newline:
  "translate_escapes [CHR ''a'', CHR 0x09, CHR ''b''] = [CHR ''a'', CHR 0x0A, CHR ''b'']"
  by code_simp

text \<open>
  Claim C7.  \<open>set_value\<close> assigns the string and leaves the cursor where it was.  After
  construction with the default text \<open>abc\<close> the cursor is 3; \<open>set_value('')\<close> leaves it
  at 3 beside the empty string.
\<close>

theorem set_value_leaves_cursor:
  "\<exists>s0. init example_controls (default_args\<lparr>default_arg := ''abc''\<rparr>) = Inr s0
     \<and> input_string s0 = ''abc'' \<and> cursor_position s0 = 3
     \<and> cursor_ok s0
     \<and> input_string (set_value [] s0) = [] \<and> cursor_position (set_value [] s0) = 3
     \<and> \<not> cursor_ok (set_value [] s0)"
proof -
  let ?a = "default_args\<lparr>default_arg := ''abc''\<rparr>"
  have "\<exists>s0. init example_controls ?a = Inr s0"
    by (rule init_returns) (simp_all add: default_args_def check_input_type_def blank_def)
  then obtain s0 where i: "init example_controls ?a = Inr s0" by blast
  from init_no_maxwidth [OF i] have "input_string s0 = ''abc''" "cursor_position s0 = 3"
    by (simp_all add: default_args_def)
  with i show ?thesis by (simp add: set_value_def cursor_ok_def)
qed

text \<open>
  Undo leaves the invariant as well: the backspace branch stores the edition in the history
  before it moves the cursor, so the edition is stored with the old cursor.  After a,
  backspace and b, Ctrl+Z restores the empty string with the cursor 1.
\<close>

lemma undo_restores_stale_cursor:
  "(case init example_controls default_args of
      Inl e \<Rightarrow> False
    | Inr s0 \<Rightarrow>
        (let s1 = frames idle_host [typed CHR ''a'', pressed K_BACKSPACE, typed CHR ''b''] s0
         in cursor_ok s1
            \<and> (case update idle_host [KEYDOWN K_z [] True True] s1 of
                 (r, s) \<Rightarrow>
                   r = Returns (Some True) \<and> input_string s = [] \<and> cursor_position s = 1
                   \<and> \<not> cursor_ok s)))"
  by code_simp

subsection \<open>The text drawn\<close>

text \<open>
  Claim C5.  \<open>_get_input_string\<close> returns \<open>_input_string\<close> unchanged when
  \<open>maxwidth = 0\<close> or the string is no longer than \<open>maxwidth\<close>; otherwise it returns the
  window \<open>_input_string[_renderbox[0]:_renderbox[1]]\<close>, with the ellipsis after it exactly
  when \<open>_renderbox[1]\<close> is not the length of the string, and before it exactly when
  \<open>_renderbox[0]\<close> is not 0.
\<close>

theorem get_input_string_window:
  "get_input_string s =
     (if maxwidth s = 0 \<or> int (length (input_string s)) \<le> maxwidth s then input_string s
      else (if fst (renderbox s) \<noteq> 0 then ellipsis s else [])
           @ py_slice (input_string s) (fst (renderbox s)) (fst (snd (renderbox s)))
           @ (if fst (snd (renderbox s)) \<noteq> int (length (input_string s))
              then ellipsis s else []))"
  by (cases "renderbox s") (auto simp: get_input_string_def Let_def)

subsection \<open>Validation\<close>

lemma parse_examples:
  "py_float ''3.5'' = Some ''3.5''" "py_int ''3.5'' = None" "py_float ''abc'' = None"
  "py_int ''12'' = Some 12"
  by code_simp+

text \<open>
  Claim C8.  For a non-empty string other than \<open>-\<close>, \<open>_check_input_type\<close> of an
  integer input is true exactly when the string parses as a float, and of a float input
  exactly when it parses as an int; the empty string and \<open>-\<close> are accepted whatever the
  input type; and \<open>get_value\<close> is 0 when the stored string fails the conversion of the
  declared type.
\<close>

theorem check_input_type_swapped:
  "(string \<noteq> [] \<and> string \<noteq> ''-'' \<longrightarrow>
      (input_type s = PYGAME_INPUT_INT \<longrightarrow>
         check_input_type s string = (py_float string \<noteq> None)) \<and>
      (input_type s = PYGAME_INPUT_FLOAT \<longrightarrow>
         check_input_type s string = (py_int string \<noteq> None)))
   \<and> check_input_type s [] \<and> check_input_type s ''-''
   \<and> (input_type s = PYGAME_INPUT_FLOAT \<and> py_float (input_string s) = None
        \<longrightarrow> get_value s = Py_int 0)
   \<and> (input_type s = PYGAME_INPUT_INT \<and> py_int (input_string s) = None
        \<longrightarrow> get_value s = Py_int 0)"
  by (simp add: check_input_type_def get_value_def conv_accepts_def Let_def)

text \<open>\<open>3.5\<close> is accepted into an integer input and rejected by a float input.\<close>

theorem check_input_type_swapped_witness:
  "check_input_type (blank example_controls (default_args\<lparr>input_type_arg := PYGAME_INPUT_INT\<rparr>))
     ''3.5''
   \<and> \<not> check_input_type
         (blank example_controls (default_args\<lparr>input_type_arg := PYGAME_INPUT_FLOAT\<rparr>)) ''3.5''
   \<and> get_value ((blank example_controls (default_args\<lparr>input_type_arg := PYGAME_INPUT_FLOAT\<rparr>))
                   \<lparr>input_string := ''abc''\<rparr>) = Py_int 0
   \<and> get_value ((blank example_controls (default_args\<lparr>input_type_arg := PYGAME_INPUT_INT\<rparr>))
                   \<lparr>input_string := ''3.5''\<rparr>) = Py_int 0"
  using
    check_input_type_swapped [of "''3.5''"
      "blank example_controls (default_args\<lparr>input_type_arg := PYGAME_INPUT_INT\<rparr>)"]
    check_input_type_swapped [of "''3.5''"
      "blank example_controls (default_args\<lparr>input_type_arg := PYGAME_INPUT_FLOAT\<rparr>)"]
    check_input_type_swapped [of "''3.5''"
      "(blank example_controls (default_args\<lparr>input_type_arg := PYGAME_INPUT_FLOAT\<rparr>))
         \<lparr>input_string := ''abc''\<rparr>"]
    check_input_type_swapped [of "''3.5''"
      "(blank example_controls (default_args\<lparr>input_type_arg := PYGAME_INPUT_INT\<rparr>))
         \<lparr>input_string := ''3.5''\<rparr>"]
  by (simp add: parse_examples blank_def default_args_def)

section \<open>Properties of the sound manager\<close>

lemma get_channel_unique:
  "uniquechannel s \<Longrightarrow> sound_channel s = Some c \<Longrightarrow> get_channel found s = (Some c, s)"
  by (simp add: get_channel_def)

lemma get_channel_fresh:
  "\<not> uniquechannel s \<Longrightarrow> get_channel found s = (found, s\<lparr>sound_channel := found\<rparr>)"
  by (simp add: get_channel_def)

lemma play_sound_keeps_channel:
  "uniquechannel s \<Longrightarrow> sound_channel s = Some c \<Longrightarrow>
   uniquechannel (play_sound (Some e) found now s) \<and>
   sound_channel (play_sound (Some e) found now s) = Some c"
  by (simp add: play_sound_def get_channel_def Let_def)

lemma run_calls_unique:
  "uniquechannel s \<Longrightarrow> sound_channel s = Some c \<Longrightarrow>
   (\<forall>r \<in> set (fst (run_calls calls s)). r = Some c)
   \<and> sound_channel (snd (run_calls calls s)) = Some c"
proof (induction calls arbitrary: s)
  case Nil
  then show ?case by simp
next
  case (Cons call calls)
  show ?case
  proof (cases call)
    case (Get_channel found)
    have g: "get_channel found s = (Some c, s)"
      using Cons.prems by (rule get_channel_unique)
    obtain rs s' where r: "run_calls calls s = (rs, s')" by (cases "run_calls calls s")
    with Cons.IH [OF Cons.prems] have "\<forall>r \<in> set rs. r = Some c" "sound_channel s' = Some c"
      by simp_all
    with Get_channel g r show ?thesis by simp
  next
    case (Play_enabled e found now)
    from play_sound_keeps_channel [OF Cons.prems, of e found now]
    have "uniquechannel (play_sound (Some e) found now s)"
      "sound_channel (play_sound (Some e) found now s) = Some c"
      by simp_all
    from Cons.IH [OF this] Play_enabled show ?thesis by simp
  qed
qed

text \<open>
  Claim C9, as amended.  In a sound manager with \<open>uniquechannel\<close> set that holds a
  channel, every call of \<open>get_channel\<close> returns that channel, whatever the mixer finds,
  through any run of calls of \<open>get_channel\<close> and of \<open>_play_sound\<close> on enabled sounds.
  With \<open>uniquechannel\<close> unset, every call stores and returns what the mixer finds.
\<close>

theorem unique_channel_kept:
  "(uniquechannel s \<and> sound_channel s = Some c \<longrightarrow>
      (\<forall>r \<in> set (fst (run_calls calls s)). r = Some c)
      \<and> sound_channel (snd (run_calls calls s)) = Some c)
   \<and> (\<not> uniquechannel s \<longrightarrow>
        get_channel found s = (found, s\<lparr>sound_channel := found\<rparr>))"
  using run_calls_unique [of s c calls] get_channel_fresh [of s found] by blast

text \<open>Three calls on a manager that holds channel 1, and one call on a manager that is not unique.\<close>

theorem unique_channel_kept_witness:
  "fst (run_calls [Get_channel (Some 2), Get_channel None, Get_channel (Some 3)]
          ((new_sound True True)\<lparr>sound_channel := Some 1\<rparr>))
     = [Some 1, Some 1, Some 1]
   \<and> get_channel (Some 2) ((new_sound True False)\<lparr>sound_channel := Some 1\<rparr>)
       = (Some 2, (new_sound True False)\<lparr>sound_channel := Some 2\<rparr>)"
proof -
  let ?s = "(new_sound True True)\<lparr>sound_channel := Some 1\<rparr>"
  let ?calls = "[Get_channel (Some 2), Get_channel None, Get_channel (Some 3)]"
  have u: "uniquechannel ?s \<and> sound_channel ?s = Some 1"
    by (simp add: new_sound_def)
  have n: "\<not> uniquechannel ((new_sound True False)\<lparr>sound_channel := Some 1\<rparr>)"
    by (simp add: new_sound_def)
  from unique_channel_kept [of ?s 1 ?calls] u
  have all: "\<forall>r \<in> set (fst (run_calls ?calls ?s)). r = Some 1" by blast
  have "fst (run_calls ?calls ?s) = [Some 1, Some 1, Some 1]"
  proof -
    obtain a b c where abc: "fst (run_calls ?calls ?s) = [a, b, c]"
      by (simp add: get_channel_def new_sound_def Let_def)
    with all show ?thesis by simp
  qed
  moreover from unique_channel_kept [of "(new_sound True False)\<lparr>sound_channel := Some 1\<rparr>" 1 "[]" "Some 2"] n
  have "get_channel (Some 2) ((new_sound True False)\<lparr>sound_channel := Some 1\<rparr>)
       = (Some 2, (new_sound True False)\<lparr>sound_channel := Some 2\<rparr>)"
    by simp
  ultimately show ?thesis by simp
qed

text \<open>
  Claim C9 as stated fails: \<open>_play_sound\<close> on a disabled sound (every sound of a new
  manager is disabled) sets the stored channel to \<open>None\<close>, and the next \<open>get_channel\<close>
  stores and returns the channel the mixer finds then.  Here the manager is unique, the first
  call stores channel 1, \<open>play_error\<close> plays the disabled error sound, and the second call
  returns channel 2.
\<close>

theorem channel_lost_after_disabled_sound:
  "sound_init True True 22050 2 4096 = Inr (new_sound True True)
   \<and> get_channel (Some 1) (new_sound True True)
       = (Some 1, (new_sound True True)\<lparr>sound_channel := Some 1\<rparr>)
   \<and> fst (play_error (Some 5) 0 ((new_sound True True)\<lparr>sound_channel := Some 1\<rparr>)) = Returns ()
   \<and> fst (get_channel (Some 2)
            (snd (play_error (Some 5) 0 ((new_sound True True)\<lparr>sound_channel := Some 1\<rparr>))))
       = Some 2"
  by (simp add: sound_init_def new_sound_def get_channel_def play_error_def play_def
      play_sound_def type_sounds_def SOUND_TYPE_ERROR_def SOUND_TYPE_CLICK_MOUSE_def
      SOUND_TYPE_CLOSE_MENU_def)

lemma type_sounds_eight: "length type_sounds = 8 \<and> distinct type_sounds"
  by (simp add: type_sounds_def SOUND_TYPE_CLICK_MOUSE_def SOUND_TYPE_CLOSE_MENU_def
      SOUND_TYPE_ERROR_def SOUND_TYPE_EVENT_def SOUND_TYPE_EVENT_ERROR_def
      SOUND_TYPE_KEY_ADDITION_def SOUND_TYPE_KEY_DELETION_def SOUND_TYPE_OPEN_MENU_def)

text \<open>
  Claim C10.  When the arguments pass the assertions of \<open>set_sound\<close> (\<open>loops\<close>,
  \<open>maxtime\<close> and \<open>fade_ms\<close> not negative, \<open>volume\<close> between 0 and 1), the method
  raises ValueError exactly when the sound type is not one of the eight, leaving the state
  as it was; for a valid type and \<open>file = None\<close> it empties that type's entry, keeps every
  other entry and returns; for a valid type and a path that is not an existing file it
  raises FileNotFoundError, leaving the state as it was.
\<close>

theorem set_sound_errors:
  assumes "loops \<ge> 0" and "maxtime \<ge> 0" and "fade_ms \<ge> 0" and "0 \<le> volume" and "volume \<le> 1"
  shows "(fst (set_sound h k file volume loops maxtime fade_ms s) = Raises ValueError
            \<longleftrightarrow> k \<notin> set type_sounds)
       \<and> (k \<notin> set type_sounds \<longrightarrow> snd (set_sound h k file volume loops maxtime fade_ms s) = s)
       \<and> (k \<in> set type_sounds \<and> file = None \<longrightarrow>
            set_sound h k file volume loops maxtime fade_ms s
              = (Returns (), s\<lparr>sound_dict := (sound_dict s)(k \<mapsto> None)\<rparr>)
            \<and> (\<forall>k'. k' \<noteq> k \<longrightarrow>
                  sound_dict (snd (set_sound h k file volume loops maxtime fade_ms s)) k'
                    = sound_dict s k'))
       \<and> (\<forall>f. k \<in> set type_sounds \<and> file = Some f \<and> \<not> isfile h f \<longrightarrow>
            set_sound h k file volume loops maxtime fade_ms s = (Raises FileNotFoundError, s))"
proof (cases "k \<in> set type_sounds")
  case True
  with assms show ?thesis
    by (cases "file") (simp_all add: set_sound_def split: option.split)
next
  case False
  with assms show ?thesis by (simp add: set_sound_def)
qed

text \<open>An unknown type, a valid type with no file, and a valid type with a missing file.\<close>

theorem set_sound_errors_witness:
  "set_sound no_files ''bogus'' None (1 / 2) 0 0 0 (new_sound True True)
     = (Raises ValueError, new_sound True True)
   \<and> set_sound no_files SOUND_TYPE_ERROR None (1 / 2) 0 0 0 (new_sound True True)
       = (Returns (), (new_sound True True)
            \<lparr>sound_dict := (sound_dict (new_sound True True))(SOUND_TYPE_ERROR \<mapsto> None)\<rparr>)
   \<and> set_sound no_files SOUND_TYPE_ERROR (Some ''missing.ogg'') (1 / 2) 0 0 0 (new_sound True True)
       = (Raises FileNotFoundError, new_sound True True)"
proof -
  have a: "(0::int) \<le> 0" "(0::rat) \<le> 0" "(0::rat) \<le> 1 / 2" "(1 / 2 :: rat) \<le> 1"
    by simp_all
  have m: "''bogus'' \<notin> set type_sounds" "SOUND_TYPE_ERROR \<in> set type_sounds"
    by (simp_all add: type_sounds_def SOUND_TYPE_CLICK_MOUSE_def SOUND_TYPE_CLOSE_MENU_def
      SOUND_TYPE_ERROR_def SOUND_TYPE_EVENT_def SOUND_TYPE_EVENT_ERROR_def
      SOUND_TYPE_KEY_ADDITION_def SOUND_TYPE_KEY_DELETION_def SOUND_TYPE_OPEN_MENU_def)
  have nf: "\<not> isfile no_files ''missing.ogg''" by (simp add: no_files_def)
  note t1 = set_sound_errors [OF a(1) a(2) a(2) a(3) a(4), of no_files "''bogus''" None "new_sound True True"]
  note t2 = set_sound_errors [OF a(1) a(2) a(2) a(3) a(4), of no_files SOUND_TYPE_ERROR None "new_sound True True"]
  note t3 = set_sound_errors [OF a(1) a(2) a(2) a(3) a(4), of no_files SOUND_TYPE_ERROR "Some ''missing.ogg''" "new_sound True True"]
  from t1 m(1) have "set_sound no_files ''bogus'' None (1 / 2) 0 0 0 (new_sound True True)
     = (Raises ValueError, new_sound True True)"
    by (metis prod.collapse)
  moreover from t2 m(2) have "set_sound no_files SOUND_TYPE_ERROR None (1 / 2) 0 0 0 (new_sound True True)
       = (Returns (), (new_sound True True)
            \<lparr>sound_dict := (sound_dict (new_sound True True))(SOUND_TYPE_ERROR \<mapsto> None)\<rparr>)"
    by blast
  moreover from t3 m(2) nf have "set_sound no_files SOUND_TYPE_ERROR (Some ''missing.ogg'') (1 / 2) 0 0 0 (new_sound True True)
       = (Raises FileNotFoundError, new_sound True True)"
    by blast
  ultimately show ?thesis by blast
qed

end
